theory Spec2Isabelle
  imports Complex_Main
begin

section \<open>Text: Python strings restricted to ASCII\<close>

text \<open>
  Questions, column names and cell texts are Python \<open>str\<close> values. The model reads them
  as lists of ASCII characters: \<open>lower\<close>, \<open>upper\<close>, \<open>strip\<close>, the regular expression classes
  \<open>\d\<close>, \<open>\s\<close>, \<open>\w\<close> and the word boundary are the ASCII ones.
\<close>

definition ord :: "char \<Rightarrow> nat" where
  "ord c = of_char c"

definition is_digit :: "char \<Rightarrow> bool" where
  "is_digit c = (48 \<le> ord c \<and> ord c \<le> 57)"

definition is_lower_az :: "char \<Rightarrow> bool" where
  "is_lower_az c = (97 \<le> ord c \<and> ord c \<le> 122)"

definition is_upper_az :: "char \<Rightarrow> bool" where
  "is_upper_az c = (65 \<le> ord c \<and> ord c \<le> 90)"

definition is_space :: "char \<Rightarrow> bool" where
  "is_space c = ((9 \<le> ord c \<and> ord c \<le> 13) \<or> (28 \<le> ord c \<and> ord c \<le> 32))"

definition is_word :: "char \<Rightarrow> bool" where
  "is_word c = (is_digit c \<or> is_lower_az c \<or> is_upper_az c \<or> c = CHR ''_'')"

definition lower_char :: "char \<Rightarrow> char" where
  "lower_char c = (if is_upper_az c then char_of (ord c + 32) else c)"

definition upper_char :: "char \<Rightarrow> char" where
  "upper_char c = (if is_lower_az c then char_of (ord c - 32) else c)"

definition py_lower :: "string \<Rightarrow> string" where
  "py_lower s = map lower_char s"

definition py_upper :: "string \<Rightarrow> string" where
  "py_upper s = map upper_char s"

definition py_strip :: "string \<Rightarrow> string" where
  "py_strip s = rev (dropWhile is_space (rev (dropWhile is_space s)))"

fun starts_with :: "string \<Rightarrow> string \<Rightarrow> bool" where
  "starts_with [] s = True"
| "starts_with (p # ps) [] = False"
| "starts_with (p # ps) (c # cs) = (p = c \<and> starts_with ps cs)"

text \<open>\<open>str_in sub s\<close> is Python's \<open>sub in s\<close>.\<close>

fun str_in :: "string \<Rightarrow> string \<Rightarrow> bool" where
  "str_in sub [] = (sub = [])"
| "str_in sub (c # cs) = (starts_with sub (c # cs) \<or> str_in sub cs)"

text \<open>\<open>any(p in q for p in ps)\<close>.\<close>

definition any_in :: "string list \<Rightarrow> string \<Rightarrow> bool" where
  "any_in ps q = list_ex (\<lambda>p. str_in p q) ps"

fun digits_value :: "int \<Rightarrow> string \<Rightarrow> int" where
  "digits_value acc [] = acc"
| "digits_value acc (c # cs) = digits_value (acc * 10 + (int (ord c) - 48)) cs"

section \<open>The regular expressions of the planner\<close>

text \<open>
  The planner uses seven patterns of Python's \<open>re\<close>. All of them are sequences of
  literals, alternatives of literals, greedy repetitions of one character class,
  capture groups, \<open>\b\<close> and \<open>$\<close>. The matcher below is the backtracking search of
  \<open>re.search\<close> on that fragment: leftmost start, alternatives left to right, each
  repetition longest first.
\<close>

datatype citem = D | S | R char char | C char

fun item_has :: "citem \<Rightarrow> char \<Rightarrow> bool" where
  "item_has D c = is_digit c"
| "item_has S c = is_space c"
| "item_has (R a b) c = (ord a \<le> ord c \<and> ord c \<le> ord b)"
| "item_has (C a) c = (c = a)"

definition in_class :: "citem list \<Rightarrow> char \<Rightarrow> bool" where
  "in_class items c = list_ex (\<lambda>i. item_has i c) items"

datatype atom =
    Lit string
  | Alt "string list"
  | Rep "citem list" nat "nat option"
  | Mark
  | WordB
  | Eos

fun first_some :: "('a \<Rightarrow> 'b option) \<Rightarrow> 'a list \<Rightarrow> 'b option" where
  "first_some f [] = None"
| "first_some f (x # xs) = (case f x of Some r \<Rightarrow> Some r | None \<Rightarrow> first_some f xs)"

text \<open>\<open>first_down f lo k\<close> tries the lengths \<open>k, k - 1, ..., lo\<close> in that order.\<close>

fun first_down :: "(nat \<Rightarrow> 'b option) \<Rightarrow> nat \<Rightarrow> nat \<Rightarrow> 'b option" where
  "first_down f lo 0 = (if lo = 0 then f 0 else None)"
| "first_down f lo (Suc k) =
     (if Suc k < lo then None
      else (case f (Suc k) of Some r \<Rightarrow> Some r | None \<Rightarrow> first_down f lo k))"

definition run :: "citem list \<Rightarrow> nat option \<Rightarrow> string \<Rightarrow> nat" where
  "run cls hi s =
     (let k = length (takeWhile (in_class cls) s)
      in (case hi of None \<Rightarrow> k | Some h \<Rightarrow> min h k))"

definition prev_after :: "char option \<Rightarrow> string \<Rightarrow> char option" where
  "prev_after p t = (if t = [] then p else Some (last t))"

definition word_before :: "char option \<Rightarrow> bool" where
  "word_before p = (case p of None \<Rightarrow> False | Some c \<Rightarrow> is_word c)"

definition word_after :: "string \<Rightarrow> bool" where
  "word_after s = (case s of [] \<Rightarrow> False | c # _ \<Rightarrow> is_word c)"

text \<open>
  \<open>match_here atoms p s\<close> matches the pattern at the start of \<open>s\<close>, where \<open>p\<close> is the
  character before it. The result lists what was left of the text at every
  \<open>Mark\<close>, and last what is left after the match.
\<close>

fun match_here :: "atom list \<Rightarrow> char option \<Rightarrow> string \<Rightarrow> string list option" where
  "match_here [] p s = Some [s]"
| "match_here (Mark # as) p s = map_option (\<lambda>r. s # r) (match_here as p s)"
| "match_here (Lit l # as) p s =
     (if starts_with l s then match_here as (prev_after p l) (drop (length l) s) else None)"
| "match_here (Alt ls # as) p s =
     first_some (\<lambda>l. if starts_with l s
                      then match_here as (prev_after p l) (drop (length l) s) else None) ls"
| "match_here (Rep cls lo hi # as) p s =
     first_down (\<lambda>j. match_here as (prev_after p (take j s)) (drop j s)) lo (run cls hi s)"
| "match_here (WordB # as) p s =
     (if word_before p = word_after s then None else match_here as p s)"
| "match_here (Eos # as) p s =
     (if s = [] \<or> s = [CHR 0x0A] then match_here as p s else None)"

fun search_from :: "atom list \<Rightarrow> char option \<Rightarrow> string \<Rightarrow> string list option" where
  "search_from as p [] = match_here as p []"
| "search_from as p (c # cs) =
     (case match_here as p (c # cs) of
        Some r \<Rightarrow> Some r
      | None \<Rightarrow> search_from as (Some c) cs)"

definition between_marks :: "string \<Rightarrow> string \<Rightarrow> string" where
  "between_marks a b = take (length a - length b) a"

fun groups :: "string list \<Rightarrow> string list" where
  "groups (a # b # rest) = between_marks a b # groups rest"
| "groups rest = []"

text \<open>\<open>re_search\<close> gives the texts of the capture groups of the first match.\<close>

definition re_search :: "atom list \<Rightarrow> string \<Rightarrow> string list option" where
  "re_search as s = map_option groups (search_from as None s)"

definition col_text :: "citem list" where
  "col_text = [R CHR ''a'' CHR ''z'', R CHR ''0'' CHR ''9'', C CHR ''_'', C CHR '' '']"

definition val_text :: "citem list" where
  "val_text = [R CHR ''a'' CHR ''z'', R CHR ''0'' CHR ''9'', C CHR ''_'', C CHR ''/'', C CHR ''-'']"

text \<open>\<^verbatim>\<open>\b(20\d{2})\b\<close>\<close>

definition re_year :: "atom list" where
  "re_year = [WordB, Mark, Lit ''20'', Rep [D] 2 (Some 2), Mark, WordB]"

text \<open>\<^verbatim>\<open>\b(\d{1,4})\b\<close>\<close>

definition re_int :: "atom list" where
  "re_int = [WordB, Mark, Rep [D] 1 (Some 4), Mark, WordB]"

text \<open>\<^verbatim>\<open>(?:top|largest)\s+(\d+)\s+rows?\s+by\s+([a-z0-9_ ]+)\<close>\<close>

definition re_top :: "atom list" where
  "re_top = [Alt [''top'', ''largest''], Rep [S] 1 None, Mark, Rep [D] 1 None, Mark,
             Rep [S] 1 None, Lit ''row'', Rep [C CHR ''s''] 0 (Some 1), Rep [S] 1 None,
             Lit ''by'', Rep [S] 1 None, Mark, Rep col_text 1 None, Mark]"

text \<open>\<^verbatim>\<open>(?: by | per )([a-z0-9_ ]+)$\<close>\<close>

definition re_by_per_end :: "atom list" where
  "re_by_per_end = [Alt ['' by '', '' per ''], Mark, Rep col_text 1 None, Mark, Eos]"

text \<open>\<^verbatim>\<open>by ([a-z0-9_ ]+)\<close>\<close>

definition re_by :: "atom list" where
  "re_by = [Lit ''by '', Mark, Rep col_text 1 None, Mark]"

text \<open>\<^verbatim>\<open>where\s+([a-z0-9_ ]+)\s*=\s*([a-z0-9_/\-]+)\<close>\<close>

definition re_where_eq :: "atom list" where
  "re_where_eq = [Lit ''where'', Rep [S] 1 None, Mark, Rep col_text 1 None, Mark,
                  Rep [S] 0 None, Lit ''='', Rep [S] 0 None, Mark, Rep val_text 1 None, Mark]"

text \<open>\<^verbatim>\<open>where\s+([a-z0-9_ ]+)\s+contains\s+([a-z0-9_/\-]+)\<close>\<close>

definition re_where_contains :: "atom list" where
  "re_where_contains = [Lit ''where'', Rep [S] 1 None, Mark, Rep col_text 1 None, Mark,
                        Rep [S] 1 None, Lit ''contains'', Rep [S] 1 None,
                        Mark, Rep val_text 1 None, Mark]"

section \<open>Literals and their coercion\<close>

text \<open>
  A Python float is read as its exact decimal value (\<open>FFin\<close>), an infinity with its
  sign (\<open>FInf True\<close> is the negative one) or not-a-number. Which texts \<open>float\<close> reads is
  modelled exactly; the value is not rounded to binary64, so a literal beyond the
  range of binary64 keeps its decimal value where Python gives an infinity or zero.
  The theorems below use the value of a float only where it is exact in binary64.
\<close>

datatype pyfloat = FFin real | FInf bool | FNaN

datatype lit = LInt int | LFloat pyfloat | LStr string

text \<open>A digit part: digits, with single underscores between digits only.\<close>

fun dig_run :: "bool \<Rightarrow> string \<Rightarrow> bool" where
  "dig_run d [] = d"
| "dig_run d (c # cs) =
     (if is_digit c then dig_run True cs
      else if c = CHR ''_'' \<and> d then dig_run False cs
      else False)"

definition digit_part :: "string \<Rightarrow> bool" where
  "digit_part s = dig_run False s"

definition digit_chars :: "string \<Rightarrow> string" where
  "digit_chars s = filter is_digit s"

definition split_sign :: "string \<Rightarrow> bool \<times> string" where
  "split_sign s =
     (case s of
        [] \<Rightarrow> (False, [])
      | c # cs \<Rightarrow> if c = CHR ''-'' then (True, cs)
                  else if c = CHR ''+'' then (False, cs)
                  else (False, s))"

definition signed :: "bool \<Rightarrow> int \<Rightarrow> int" where
  "signed neg v = (if neg then - v else v)"

text \<open>\<open>int(s)\<close> in base ten; \<open>None\<close> is the \<open>ValueError\<close>.\<close>

definition py_int :: "string \<Rightarrow> int option" where
  "py_int s =
     (case split_sign (py_strip s) of
        (neg, body) \<Rightarrow>
          if digit_part body then Some (signed neg (digits_value 0 (digit_chars body)))
          else None)"

definition split_at :: "char list \<Rightarrow> string \<Rightarrow> string \<times> string option" where
  "split_at seps s =
     (case dropWhile (\<lambda>c. c \<notin> set seps) s of
        [] \<Rightarrow> (s, None)
      | _ # r \<Rightarrow> (takeWhile (\<lambda>c. c \<notin> set seps) s, Some r))"

definition mantissa_ok :: "string \<Rightarrow> string option \<Rightarrow> bool" where
  "mantissa_ok ip fp =
     (case fp of
        None \<Rightarrow> digit_part ip
      | Some f \<Rightarrow> (ip = [] \<or> digit_part ip) \<and> (f = [] \<or> digit_part f)
                  \<and> \<not> (ip = [] \<and> f = []))"

definition exp_part :: "string option \<Rightarrow> int option" where
  "exp_part ex =
     (case ex of
        None \<Rightarrow> Some 0
      | Some e \<Rightarrow>
          (case split_sign e of
             (neg, body) \<Rightarrow>
               if digit_part body then Some (signed neg (digits_value 0 (digit_chars body)))
               else None))"

definition scale10 :: "int \<Rightarrow> int \<Rightarrow> real" where
  "scale10 m e = (if 0 \<le> e then of_int m * 10 ^ nat e else of_int m / 10 ^ nat (- e))"

text \<open>\<open>float(s)\<close>; \<open>None\<close> is the \<open>ValueError\<close>.\<close>

definition py_float :: "string \<Rightarrow> pyfloat option" where
  "py_float s =
     (case split_sign (py_strip s) of
        (neg, body) \<Rightarrow>
          if py_lower body = ''inf'' \<or> py_lower body = ''infinity'' then Some (FInf neg)
          else if py_lower body = ''nan'' then Some FNaN
          else
            (case split_at [CHR ''e'', CHR ''E''] body of
               (mant, ex) \<Rightarrow>
                 (case split_at [CHR ''.''] mant of
                    (ip, fp) \<Rightarrow>
                      if mantissa_ok ip fp then
                        (case exp_part ex of
                           None \<Rightarrow> None
                         | Some e \<Rightarrow>
                             (let fd = digit_chars (case fp of None \<Rightarrow> [] | Some f \<Rightarrow> f)
                              in Some (FFin (scale10
                                   (signed neg (digits_value 0 (digit_chars ip @ fd)))
                                   (e - int (length fd))))))
                      else None)))"

definition coerce_literal :: "string \<Rightarrow> lit" where
  "coerce_literal s =
     (case py_int s of
        Some i \<Rightarrow> LInt i
      | None \<Rightarrow>
          (case py_float s of
             Some f \<Rightarrow> LFloat f
           | None \<Rightarrow> LStr (if length s \<le> 5 then py_upper s else s)))"

section \<open>Filter specifications and plans\<close>

text \<open>
  A filter value is a literal (equality) or a dictionary of predicates; the record has
  one optional field per key that \<open>apply_filters\<close> reads. Dictionaries are association
  lists in insertion order; \<open>dict_set\<close> is \<open>d[k] = v\<close>.
\<close>

record preds =
  f_between :: "lit list option"
  f_in :: "lit list option"
  f_contains :: "string option"
  f_startswith :: "string option"
  f_endswith :: "string option"
  f_gt :: "lit option"
  f_gte :: "lit option"
  f_lt :: "lit option"
  f_lte :: "lit option"

datatype fval = Value lit | Preds preds

type_synonym filterspec = "(string \<times> fval) list"

fun dict_set :: "'k \<Rightarrow> 'v \<Rightarrow> ('k \<times> 'v) list \<Rightarrow> ('k \<times> 'v) list" where
  "dict_set k v [] = [(k, v)]"
| "dict_set k v (e # r) = (if fst e = k then (k, v) # r else e # dict_set k v r)"

definition no_preds :: preds where
  "no_preds = \<lparr>f_between = None, f_in = None, f_contains = None, f_startswith = None,
               f_endswith = None, f_gt = None, f_gte = None, f_lt = None, f_lte = None\<rparr>"

text \<open>
  A plan is a dictionary with the key \<open>type\<close> and optional keys; a field is \<open>None\<close> when
  the key is absent. The one key that the planner ever sets to Python's \<open>None\<close> is \<open>col\<close>,
  and the executor treats a \<open>col\<close> that is \<open>None\<close> as it treats an absent one.
\<close>

record plan =
  ptype :: string
  p_n :: "int option"
  p_col :: "string option"
  p_cols :: "string list option"
  p_group_by :: "string list option"
  p_ops :: "(string \<times> string) list option"
  p_filters :: "filterspec option"
  p_by :: "string list option"
  p_ascending :: "bool option"
  p_top_n :: "int option"
  p_threshold :: "real option"
  p_contamination :: "real option"

definition plan_of_type :: "string \<Rightarrow> plan" where
  "plan_of_type t =
     \<lparr>ptype = t, p_n = None, p_col = None, p_cols = None, p_group_by = None, p_ops = None,
      p_filters = None, p_by = None, p_ascending = None, p_top_n = None,
      p_threshold = None, p_contamination = None\<rparr>"

section \<open>The planner\<close>

text \<open>
  \<open>difflib.get_close_matches(word, possibilities, n, cutoff)\<close> belongs to Python's
  standard library, not to this program: every planner function takes it as the
  parameter \<open>gcm\<close>.
\<close>

type_synonym close_matches = "string \<Rightarrow> string list \<Rightarrow> nat \<Rightarrow> real \<Rightarrow> string list"

text \<open>Truthiness of an optional string, and Python's \<open>a or b\<close> on them.\<close>

definition truthy :: "string option \<Rightarrow> bool" where
  "truthy c = (case c of None \<Rightarrow> False | Some s \<Rightarrow> s \<noteq> [])"

definition or_str :: "string option \<Rightarrow> string option \<Rightarrow> string option" where
  "or_str a b = (if truthy a then a else b)"

definition truthy_int :: "int option \<Rightarrow> bool" where
  "truthy_int n = (case n of None \<Rightarrow> False | Some k \<Rightarrow> k \<noteq> 0)"

definition or_int :: "int option \<Rightarrow> int \<Rightarrow> int" where
  "or_int n d = (if truthy_int n then the n else d)"

definition first_match :: "string list \<Rightarrow> string option" where
  "first_match ms = (case ms of [] \<Rightarrow> None | m # _ \<Rightarrow> Some m)"

definition first_present :: "close_matches \<Rightarrow> string list \<Rightarrow> string list \<Rightarrow> string option" where
  "first_present gcm cols candidates =
     (case find (\<lambda>c. c \<in> set cols) candidates of
        Some c \<Rightarrow> Some c
      | None \<Rightarrow>
          (case candidates of
             [] \<Rightarrow> None
           | c0 # _ \<Rightarrow> first_match (gcm c0 cols 1 (7 / 10))))"

definition group1_int :: "string list option \<Rightarrow> int option" where
  "group1_int m = (case m of Some (g # _) \<Rightarrow> Some (digits_value 0 g) | _ \<Rightarrow> None)"

definition extract_year :: "string \<Rightarrow> int option" where
  "extract_year text = group1_int (re_search re_year text)"

definition extract_int :: "string \<Rightarrow> int option" where
  "extract_int text = group1_int (re_search re_int text)"

definition resolve_col_from_text :: "close_matches \<Rightarrow> string \<Rightarrow> string list \<Rightarrow> string option" where
  "resolve_col_from_text gcm qpiece cols =
     (case find (\<lambda>c. str_in (py_lower c) (py_lower qpiece)) cols of
        Some c \<Rightarrow> Some c
      | None \<Rightarrow> first_match (gcm (py_strip (py_lower qpiece)) cols 1 (8 / 10)))"

definition resolve_col_after_by_or_per :: "close_matches \<Rightarrow> string \<Rightarrow> string list \<Rightarrow> string option" where
  "resolve_col_after_by_or_per gcm q cols =
     (case (case re_search re_by_per_end q of
              Some m \<Rightarrow> Some m
            | None \<Rightarrow> re_search re_by q) of
        Some (g # _) \<Rightarrow> resolve_col_from_text gcm g cols
      | _ \<Rightarrow> None)"

definition filter_eq_step :: "close_matches \<Rightarrow> string \<Rightarrow> string list \<Rightarrow> filterspec \<Rightarrow> filterspec" where
  "filter_eq_step gcm q cols f =
     (case re_search re_where_eq q of
        Some (g1 # g2 # _) \<Rightarrow>
          (case resolve_col_from_text gcm g1 cols of
             Some col \<Rightarrow>
               if col = [] then f else dict_set col (Value (coerce_literal (py_strip g2))) f
           | None \<Rightarrow> f)
      | _ \<Rightarrow> f)"

definition filter_contains_step :: "close_matches \<Rightarrow> string \<Rightarrow> string list \<Rightarrow> filterspec \<Rightarrow> filterspec" where
  "filter_contains_step gcm q cols f =
     (case re_search re_where_contains q of
        Some (g1 # g2 # _) \<Rightarrow>
          (case resolve_col_from_text gcm g1 cols of
             Some col \<Rightarrow>
               if col = [] then f
               else dict_set col (Preds (no_preds\<lparr>f_contains := Some (py_strip g2)\<rparr>)) f
           | None \<Rightarrow> f)
      | _ \<Rightarrow> f)"

definition extract_filters :: "close_matches \<Rightarrow> string \<Rightarrow> string list \<Rightarrow> filterspec" where
  "extract_filters gcm q cols = filter_contains_step gcm q cols (filter_eq_step gcm q cols [])"

text \<open>
  \<open>plan_from_nl\<close> is a sequence of blocks, each of which may return a plan; a block is
  a function to \<open>plan option\<close>, \<open>None\<close> when control falls through to the next block.
\<close>

definition meta_rules :: "string \<Rightarrow> int option \<Rightarrow> plan option" where
  "meta_rules q n =
     (if any_in [''how many columns'', ''number of columns'', ''columns count'', ''col count'',
                 ''dataset shape'', ''shape'', ''dimensions''] q
      then Some (plan_of_type ''meta:shape'')
      else if any_in [''list columns'', ''what are the columns'', ''show columns'',
                      ''column names'', ''headers'', ''features'', ''schema''] q
      then Some (plan_of_type ''meta:columns'')
      else if any_in [''dtypes'', ''data types'', ''types of columns'', ''show dtypes''] q
      then Some (plan_of_type ''meta:dtypes'')
      else if any_in [''describe'', ''summary stats'', ''summary statistics'', ''stats''] q
      then Some (plan_of_type ''meta:describe'')
      else if str_in ''head'' q \<or> str_in ''first rows'' q \<or> str_in ''show first'' q
      then Some ((plan_of_type ''meta:head'')\<lparr>p_n := Some (or_int n 5)\<rparr>)
      else if str_in ''tail'' q \<or> str_in ''last rows'' q \<or> str_in ''show last'' q
      then Some ((plan_of_type ''meta:tail'')\<lparr>p_n := Some (or_int n 5)\<rparr>)
      else if any_in [''missing values'', ''nulls'', ''nans'', ''na values'', ''na summary''] q
      then Some (plan_of_type ''meta:missing'')
      else if any_in [''duplicate rows'', ''duplicates''] q
      then Some (plan_of_type ''meta:duplicates'')
      else None)"

definition unique_rule :: "close_matches \<Rightarrow> string \<Rightarrow> string list \<Rightarrow> plan option" where
  "unique_rule gcm q cols =
     (if (str_in ''unique'' q \<or> str_in ''distinct'' q)
         \<and> truthy (resolve_col_from_text gcm q cols)
      then Some ((plan_of_type ''unique_count'')\<lparr>p_col := resolve_col_from_text gcm q cols\<rparr>)
      else None)"

definition value_counts_rule :: "close_matches \<Rightarrow> string \<Rightarrow> int option \<Rightarrow> string list \<Rightarrow> plan option" where
  "value_counts_rule gcm q n cols =
     (if any_in [''value counts'', ''frequency'', ''distribution'', ''breakdown''] q
         \<and> truthy (resolve_col_from_text gcm q cols)
      then Some ((plan_of_type ''value_counts'')
                   \<lparr>p_n := Some (or_int n 10), p_col := resolve_col_from_text gcm q cols\<rparr>)
      else None)"

definition with_year :: "int option \<Rightarrow> string list \<Rightarrow> filterspec \<Rightarrow> filterspec" where
  "with_year year cols f =
     (if truthy_int year \<and> ''year'' \<in> set cols
      then dict_set ''year'' (Value (LInt (the year))) f else f)"

definition count_rule :: "close_matches \<Rightarrow> string \<Rightarrow> string list \<Rightarrow> int option \<Rightarrow> filterspec \<Rightarrow> plan option" where
  "count_rule gcm q cols year filters =
     (if any_in [''how many rows'', ''count rows'', ''row count'', ''number of rows'', ''rows''] q
      then (if truthy (resolve_col_after_by_or_per gcm q cols)
            then Some ((plan_of_type ''group_count'')
                         \<lparr>p_group_by := Some [the (resolve_col_after_by_or_per gcm q cols)]\<rparr>)
            else Some ((plan_of_type ''aggregate'')
                         \<lparr>p_group_by := Some [], p_ops := Some [(''*'', ''count'')],
                          p_filters := Some (with_year year cols filters)\<rparr>))
      else None)"

definition top_rule :: "close_matches \<Rightarrow> string \<Rightarrow> string list \<Rightarrow> filterspec \<Rightarrow> plan option" where
  "top_rule gcm q cols filters =
     (case re_search re_top q of
        Some (g1 # g2 # _) \<Rightarrow>
          (if truthy (resolve_col_from_text gcm g2 cols)
           then Some ((plan_of_type ''sort_top'')
                        \<lparr>p_filters := Some filters,
                         p_by := Some [the (resolve_col_from_text gcm g2 cols)],
                         p_ascending := Some False,
                         p_top_n := Some (digits_value 0 g1)\<rparr>)
           else None)
      | _ \<Rightarrow> None)"

definition gb_list :: "close_matches \<Rightarrow> string \<Rightarrow> string list \<Rightarrow> int option \<Rightarrow> string list" where
  "gb_list gcm q cols year =
     (if truthy (resolve_col_after_by_or_per gcm q cols)
      then [the (resolve_col_after_by_or_per gcm q cols)]
      else if ''year'' \<in> set cols \<and> (str_in ''by year'' q \<or> truthy_int year)
      then [''year''] else [])"

definition ops_for :: "string option \<Rightarrow> string \<Rightarrow> (string \<times> string) list" where
  "ops_for target opname = (if truthy target then [(the target, opname)] else [])"

definition sum_rule :: "close_matches \<Rightarrow> string \<Rightarrow> string list \<Rightarrow> int option \<Rightarrow> filterspec \<Rightarrow> plan option" where
  "sum_rule gcm q cols year filters =
     (if any_in [''sum'', ''total''] q
      then Some ((plan_of_type ''aggregate'')
                   \<lparr>p_group_by := Some (gb_list gcm q cols year),
                    p_ops := Some (ops_for (first_present gcm cols
                               [''scheduled_quantity'', ''shipments'', ''volume'', ''amount'',
                                ''value'']) ''sum''),
                    p_filters := Some (with_year year cols filters)\<rparr>)
      else None)"

definition avg_rule :: "close_matches \<Rightarrow> string \<Rightarrow> string list \<Rightarrow> int option \<Rightarrow> filterspec \<Rightarrow> plan option" where
  "avg_rule gcm q cols year filters =
     (if any_in [''average'', ''mean'', ''avg''] q
      then Some ((plan_of_type ''aggregate'')
                   \<lparr>p_group_by := Some (gb_list gcm q cols year),
                    p_ops := Some (ops_for (or_str (resolve_col_from_text gcm q cols)
                               (first_present gcm cols
                                  [''scheduled_quantity'', ''shipments'', ''volume'',
                                   ''delay_hours'', ''amount'', ''value''])) ''mean''),
                    p_filters := Some (with_year year cols filters)\<rparr>)
      else None)"

definition corr_rule :: "string \<Rightarrow> string list \<Rightarrow> plan option" where
  "corr_rule q cols =
     (if str_in ''correlation'' q \<or> str_in ''correlate'' q \<or> str_in ''relationship'' q
         \<or> str_in ''corr'' q
      then Some ((plan_of_type ''correlation'')
                   \<lparr>p_cols := Some (filter (\<lambda>c. c \<in> set cols)
                      [''scheduled_quantity'', ''shipments'', ''volume'', ''delay_hours'',
                       ''rec_del_sign''])\<rparr>)
      else None)"

definition outlier_rule :: "close_matches \<Rightarrow> string \<Rightarrow> string list \<Rightarrow> plan option" where
  "outlier_rule gcm q cols =
     (if str_in ''outlier'' q \<or> str_in ''anomaly'' q \<or> str_in ''weird'' q
      then Some ((plan_of_type ''anomaly:zscore'')
                   \<lparr>p_col := or_str (or_str (resolve_col_from_text gcm q cols)
                                 (first_present gcm cols
                                    [''scheduled_quantity'', ''delay_hours'', ''volume'',
                                     ''shipments'']))
                               (first_match cols),
                    p_threshold := Some 3\<rparr>)
      else None)"

definition trend_rule :: "close_matches \<Rightarrow> string \<Rightarrow> string list \<Rightarrow> plan option" where
  "trend_rule gcm q cols =
     (if str_in ''trend'' q \<or> str_in ''over time'' q \<or> str_in ''by year'' q
      then Some ((plan_of_type ''aggregate'')
                   \<lparr>p_group_by := Some (if ''year'' \<in> set cols then [''year''] else []),
                    p_ops := Some (ops_for (or_str (resolve_col_from_text gcm q cols)
                               (first_present gcm cols
                                  [''scheduled_quantity'', ''shipments'', ''volume'',
                                   ''delay_hours''])) ''mean''),
                    p_filters := Some []\<rparr>)
      else None)"

definition default_plan :: plan where
  "default_plan = (plan_of_type ''aggregate'')
     \<lparr>p_group_by := Some [], p_ops := Some [(''*'', ''count'')], p_filters := Some []\<rparr>"

text \<open>The blocks in the order of the source; the first that returns decides.\<close>

definition rules_before_sum :: "close_matches \<Rightarrow> string \<Rightarrow> string list \<Rightarrow> plan option" where
  "rules_before_sum gcm q cols =
     first_some (\<lambda>r. r)
       [meta_rules q (extract_int q),
        unique_rule gcm q cols,
        value_counts_rule gcm q (extract_int q) cols,
        count_rule gcm q cols (extract_year q) (extract_filters gcm q cols),
        top_rule gcm q cols (extract_filters gcm q cols)]"

definition rules_from_sum :: "close_matches \<Rightarrow> string \<Rightarrow> string list \<Rightarrow> plan" where
  "rules_from_sum gcm q cols =
     (case first_some (\<lambda>r. r)
        [sum_rule gcm q cols (extract_year q) (extract_filters gcm q cols),
         avg_rule gcm q cols (extract_year q) (extract_filters gcm q cols),
         corr_rule q cols,
         outlier_rule gcm q cols,
         trend_rule gcm q cols] of
        Some p \<Rightarrow> p
      | None \<Rightarrow> default_plan)"

definition plan_from_nl :: "close_matches \<Rightarrow> string \<Rightarrow> string list \<Rightarrow> plan" where
  "plan_from_nl gcm question available_cols =
     (let q = py_lower (py_strip question)
      in (case rules_before_sum gcm q available_cols of
            Some p \<Rightarrow> p
          | None \<Rightarrow> rules_from_sum gcm q available_cols))"

section \<open>Tables\<close>

text \<open>
  A \<open>DataFrame\<close>: the columns in order, each with the one fact about its dtype that the
  program asks for (is it a number dtype, as \<open>select_dtypes(include=['number'])\<close> tests),
  and the rows, each a list of cells in column order. Column names are unique and the
  row labels are the unique labels the loader gives. Numbers are real numbers.
\<close>

datatype cell = Null | Num real | Str string

datatype dtype = DNumber | DOther

record table =
  cols :: "(string \<times> dtype) list"
  rows :: "cell list list"

datatype error = KeyError | IndexError | TypeError | ValueError

definition columns :: "table \<Rightarrow> string list" where
  "columns t = map fst (cols t)"

fun index_of :: "string \<Rightarrow> string list \<Rightarrow> nat" where
  "index_of k [] = 0"
| "index_of k (c # cs) = (if c = k then 0 else Suc (index_of k cs))"

definition cell_at :: "nat \<Rightarrow> cell list \<Rightarrow> cell" where
  "cell_at i r = (if i < length r then r ! i else Null)"

text \<open>\<open>series t k\<close> is \<open>t[k]\<close> for a column \<open>k\<close> of \<open>t\<close>: its cells, row by row.\<close>

definition series :: "table \<Rightarrow> string \<Rightarrow> cell list" where
  "series t k = map (cell_at (index_of k (columns t))) (rows t)"

definition dtype_of :: "table \<Rightarrow> string \<Rightarrow> dtype" where
  "dtype_of t k = (case map_of (cols t) k of Some d \<Rightarrow> d | None \<Rightarrow> DOther)"

text \<open>\<open>t[mask]\<close>: the rows whose mask entry is true.\<close>

definition select :: "bool list \<Rightarrow> table \<Rightarrow> table" where
  "select keep t = t\<lparr>rows := map snd (filter fst (zip keep (rows t)))\<rparr>"

definition numeric_columns :: "table \<Rightarrow> string list" where
  "numeric_columns t = map fst (filter (\<lambda>c. snd c = DNumber) (cols t))"

text \<open>\<open>df.head(n)\<close> and \<open>df.tail(n)\<close>; a negative \<open>n\<close> counts from the other end.\<close>

definition head :: "int \<Rightarrow> table \<Rightarrow> table" where
  "head n t =
     t\<lparr>rows := (if 0 \<le> n then take (nat n) (rows t)
                else take (length (rows t) - nat (- n)) (rows t))\<rparr>"

definition tail :: "int \<Rightarrow> table \<Rightarrow> table" where
  "tail n t =
     t\<lparr>rows := (if 0 \<le> n then drop (length (rows t) - nat n) (rows t)
                else drop (nat (- n)) (rows t))\<rparr>"

section \<open>Comparing cells with literals\<close>

datatype cmp = Gt | Ge | Lt | Le

definition cmp_real :: "cmp \<Rightarrow> real \<Rightarrow> real \<Rightarrow> bool" where
  "cmp_real op x y = (case op of Gt \<Rightarrow> x > y | Ge \<Rightarrow> x \<ge> y | Lt \<Rightarrow> x < y | Le \<Rightarrow> x \<le> y)"

text \<open>A finite number against a float: against an infinity only the sign decides.\<close>

definition cmp_float :: "cmp \<Rightarrow> real \<Rightarrow> pyfloat \<Rightarrow> bool" where
  "cmp_float op x f =
     (case f of
        FFin y \<Rightarrow> cmp_real op x y
      | FInf neg \<Rightarrow> (case op of Gt \<Rightarrow> neg | Ge \<Rightarrow> neg | Lt \<Rightarrow> \<not> neg | Le \<Rightarrow> \<not> neg)
      | FNaN \<Rightarrow> False)"

fun str_less :: "string \<Rightarrow> string \<Rightarrow> bool" where
  "str_less [] [] = False"
| "str_less [] (b # bs) = True"
| "str_less (a # as) [] = False"
| "str_less (a # as) (b # bs) = (ord a < ord b \<or> (a = b \<and> str_less as bs))"

definition cmp_str :: "cmp \<Rightarrow> string \<Rightarrow> string \<Rightarrow> bool" where
  "cmp_str op a b =
     (case op of
        Gt \<Rightarrow> str_less b a
      | Ge \<Rightarrow> \<not> str_less a b
      | Lt \<Rightarrow> str_less a b
      | Le \<Rightarrow> \<not> str_less b a)"

definition lit_float :: "lit \<Rightarrow> pyfloat option" where
  "lit_float l = (case l of LInt i \<Rightarrow> Some (FFin (of_int i)) | LFloat f \<Rightarrow> Some f | LStr _ \<Rightarrow> None)"

text \<open>
  One cell of an ordering comparison \<open>s > v\<close>: a missing cell is false, a number against
  a text (or a text against a number) is Python's \<open>TypeError\<close>.
\<close>

definition cell_cmp :: "cmp \<Rightarrow> lit \<Rightarrow> cell \<Rightarrow> error + bool" where
  "cell_cmp op l c =
     (case c of
        Null \<Rightarrow> Inr False
      | Num x \<Rightarrow> (case lit_float l of Some f \<Rightarrow> Inr (cmp_float op x f) | None \<Rightarrow> Inl TypeError)
      | Str a \<Rightarrow> (case l of LStr b \<Rightarrow> Inr (cmp_str op a b) | _ \<Rightarrow> Inl TypeError))"

fun collect :: "(error + 'a) list \<Rightarrow> error + 'a list" where
  "collect [] = Inr []"
| "collect (x # xs) =
     (case x of
        Inl e \<Rightarrow> Inl e
      | Inr v \<Rightarrow> (case collect xs of Inl e \<Rightarrow> Inl e | Inr vs \<Rightarrow> Inr (v # vs)))"

text \<open>
  The comparison of a whole column: a number column against a text is refused for the
  dtype, whatever the rows; otherwise cell by cell.
\<close>

definition cmp_col :: "cmp \<Rightarrow> dtype \<Rightarrow> cell list \<Rightarrow> lit \<Rightarrow> error + bool list" where
  "cmp_col op dt s l =
     (if dt = DNumber \<and> lit_float l = None then Inl TypeError
      else collect (map (cell_cmp op l) s))"

text \<open>\<open>s == v\<close> never raises: cells of another kind are unequal, a missing cell is unequal.\<close>

definition cell_eq :: "lit \<Rightarrow> cell \<Rightarrow> bool" where
  "cell_eq l c =
     (case c of
        Null \<Rightarrow> False
      | Num x \<Rightarrow> (case lit_float l of Some (FFin y) \<Rightarrow> x = y | _ \<Rightarrow> False)
      | Str a \<Rightarrow> (case l of LStr b \<Rightarrow> a = b | _ \<Rightarrow> False))"

text \<open>\<open>s.isin(values)\<close>: equality with one of the values; a missing cell is in a list that holds not-a-number.\<close>

definition cell_isin :: "lit list \<Rightarrow> cell \<Rightarrow> bool" where
  "cell_isin ls c =
     (case c of
        Null \<Rightarrow> list_ex (\<lambda>l. l = LFloat FNaN) ls
      | _ \<Rightarrow> list_ex (\<lambda>l. cell_eq l c) ls)"

section \<open>The filter engine\<close>

text \<open>
  \<open>s.astype(str)\<close> keeps a text; how pandas writes a number or a missing cell as text is
  the parameter \<open>fmt\<close> (\<open>None\<close>: the cell stays missing, and \<open>na=False\<close> makes every string
  predicate false on it). The needle of \<open>str.contains\<close> is taken literally, which is what
  pandas does for a needle without regular expression metacharacters; the planner's
  needles have none.
\<close>

type_synonym cell_text = "cell \<Rightarrow> string option"

definition astype_str :: "cell_text \<Rightarrow> cell \<Rightarrow> string option" where
  "astype_str fmt c = (case c of Str a \<Rightarrow> Some a | _ \<Rightarrow> fmt c)"

definition str_contains :: "cell_text \<Rightarrow> string \<Rightarrow> cell \<Rightarrow> bool" where
  "str_contains fmt needle c =
     (case astype_str fmt c of None \<Rightarrow> False | Some a \<Rightarrow> str_in (py_lower needle) (py_lower a))"

definition str_startswith :: "cell_text \<Rightarrow> string \<Rightarrow> cell \<Rightarrow> bool" where
  "str_startswith fmt needle c =
     (case astype_str fmt c of None \<Rightarrow> False | Some a \<Rightarrow> starts_with needle a)"

definition str_endswith :: "cell_text \<Rightarrow> string \<Rightarrow> cell \<Rightarrow> bool" where
  "str_endswith fmt needle c =
     (case astype_str fmt c of None \<Rightarrow> False | Some a \<Rightarrow> starts_with (rev needle) (rev a))"

text \<open>\<open>lo, hi = v['between']\<close> and \<open>(s >= lo) & (s <= hi)\<close>.\<close>

definition between_mask :: "dtype \<Rightarrow> cell list \<Rightarrow> lit list \<Rightarrow> error + bool list" where
  "between_mask dt s bounds =
     (case bounds of
        [lo, hi] \<Rightarrow>
          (case cmp_col Ge dt s lo of
             Inl e \<Rightarrow> Inl e
           | Inr a \<Rightarrow> (case cmp_col Le dt s hi of
                         Inl e \<Rightarrow> Inl e
                       | Inr b \<Rightarrow> Inr (map (\<lambda>(x, y). x \<and> y) (zip a b))))
      | _ \<Rightarrow> Inl ValueError)"

definition opt_mask :: "'a option \<Rightarrow> ('a \<Rightarrow> error + bool list) \<Rightarrow> (error + bool list) list" where
  "opt_mask v f = (case v of None \<Rightarrow> [] | Some x \<Rightarrow> [f x])"

text \<open>
  The masks of one dictionary of predicates, in the order in which the source tests
  the keys. Every mask is computed on \<open>s\<close>, the column as it was when the key was
  entered.
\<close>

definition pred_masks :: "cell_text \<Rightarrow> dtype \<Rightarrow> cell list \<Rightarrow> preds \<Rightarrow> (error + bool list) list" where
  "pred_masks fmt dt s p =
     opt_mask (f_between p) (between_mask dt s)
     @ opt_mask (f_in p) (\<lambda>ls. Inr (map (cell_isin ls) s))
     @ opt_mask (f_contains p) (\<lambda>n. Inr (map (str_contains fmt n) s))
     @ opt_mask (f_startswith p) (\<lambda>n. Inr (map (str_startswith fmt n) s))
     @ opt_mask (f_endswith p) (\<lambda>n. Inr (map (str_endswith fmt n) s))
     @ opt_mask (f_gt p) (cmp_col Gt dt s)
     @ opt_mask (f_gte p) (cmp_col Ge dt s)
     @ opt_mask (f_lt p) (cmp_col Lt dt s)
     @ opt_mask (f_lte p) (cmp_col Le dt s)"

text \<open>
  \<open>data = data[mask]\<close> for each mask in turn, stopping at the first that raises. The
  masks carry the row labels of \<open>s\<close>, so the rows kept are those of \<open>s\<close> on which all
  masks so far are true.
\<close>

fun run_masks :: "(error + bool list) list \<Rightarrow> bool list \<Rightarrow> error + bool list" where
  "run_masks [] keep = Inr keep"
| "run_masks (m # ms) keep =
     (case m of
        Inl e \<Rightarrow> Inl e
      | Inr b \<Rightarrow> run_masks ms (map (\<lambda>(x, y). x \<and> y) (zip keep b)))"

text \<open>The body of the loop for one entry \<open>k, v\<close> of the filter specification.\<close>

definition filter_step :: "cell_text \<Rightarrow> table \<Rightarrow> string \<times> fval \<Rightarrow> error + table" where
  "filter_step fmt data kv =
     (if fst kv \<notin> set (columns data) then Inr data
      else
        (case snd kv of
           Value l \<Rightarrow> Inr (select (map (cell_eq l) (series data (fst kv))) data)
         | Preds p \<Rightarrow>
             (case run_masks (pred_masks fmt (dtype_of data (fst kv)) (series data (fst kv)) p)
                     (map (\<lambda>_. True) (rows data)) of
                Inl e \<Rightarrow> Inl e
              | Inr keep \<Rightarrow> Inr (select keep data))))"

fun filter_loop :: "cell_text \<Rightarrow> table \<Rightarrow> filterspec \<Rightarrow> error + table" where
  "filter_loop fmt data [] = Inr data"
| "filter_loop fmt data (kv # rest) =
     (case filter_step fmt data kv of
        Inl e \<Rightarrow> Inl e
      | Inr data' \<Rightarrow> filter_loop fmt data' rest)"

text \<open>\<open>not filters\<close>: the specification is \<open>None\<close> or empty.\<close>

definition no_filters :: "filterspec option \<Rightarrow> bool" where
  "no_filters f = (case f of None \<Rightarrow> True | Some kvs \<Rightarrow> kvs = [])"

text \<open>\<open>apply_filters\<close>, as a function from the table's content to the result's content.\<close>

definition apply_filters :: "cell_text \<Rightarrow> table \<Rightarrow> filterspec option \<Rightarrow> error + table" where
  "apply_filters fmt df filters =
     (if no_filters filters then Inr df else filter_loop fmt df (the filters))"

subsection \<open>The same with the objects made explicit\<close>

text \<open>
  To say which object a call returns, tables live in a store: a reference is a
  position in the list of all tables made so far, and \<open>df.copy()\<close> and \<open>data[mask]\<close>
  each make a new table. \<open>narrows data kv\<close> tells whether the loop body assigns to
  \<open>data\<close> for the entry.
\<close>

type_synonym ref = nat

type_synonym store = "table list"

definition new_table :: "store \<Rightarrow> table \<Rightarrow> ref \<times> store" where
  "new_table h t = (length h, h @ [t])"

definition df_copy :: "store \<Rightarrow> ref \<Rightarrow> ref \<times> store" where
  "df_copy h r = new_table h (h ! r)"

definition narrows :: "table \<Rightarrow> string \<times> fval \<Rightarrow> bool" where
  "narrows data kv =
     (fst kv \<in> set (columns data)
      \<and> (case snd kv of Value _ \<Rightarrow> True | Preds p \<Rightarrow> pred_masks (\<lambda>_. None) DOther [] p \<noteq> []))"

fun filter_loop_obj :: "cell_text \<Rightarrow> store \<Rightarrow> ref \<Rightarrow> filterspec \<Rightarrow> (error + ref) \<times> store" where
  "filter_loop_obj fmt h d [] = (Inr d, h)"
| "filter_loop_obj fmt h d (kv # rest) =
     (case filter_step fmt (h ! d) kv of
        Inl e \<Rightarrow> (Inl e, h)
      | Inr t \<Rightarrow>
          if narrows (h ! d) kv
          then filter_loop_obj fmt (snd (new_table h t)) (fst (new_table h t)) rest
          else filter_loop_obj fmt h d rest)"

definition apply_filters_obj :: "cell_text \<Rightarrow> store \<Rightarrow> ref \<Rightarrow> filterspec option \<Rightarrow> (error + ref) \<times> store" where
  "apply_filters_obj fmt h df filters =
     (if no_filters filters then (Inr (fst (df_copy h df)), snd (df_copy h df))
      else filter_loop_obj fmt (snd (df_copy h df)) (fst (df_copy h df)) (the filters))"

section \<open>Aggregation\<close>

text \<open>
  The aggregates of pandas on the cells of one column (of one group): missing cells are
  skipped; \<open>std\<close> is the sample standard deviation, which is what \<open>agg('std')\<close> computes;
  texts can be counted, concatenated by \<open>sum\<close> and compared by \<open>min\<close> and \<open>max\<close>, any other
  aggregate of texts, and any aggregate but \<open>count\<close> of texts mixed with numbers, is a
  \<open>TypeError\<close>. The values are computed over the real numbers, without the rounding
  of binary64; what is proved below is about which rows and groups a result has, not
  about these values.
\<close>

definition present :: "cell list \<Rightarrow> cell list" where
  "present cs = filter (\<lambda>c. c \<noteq> Null) cs"

fun nums_of :: "cell list \<Rightarrow> real list option" where
  "nums_of [] = Some []"
| "nums_of (c # cs) =
     (case c of
        Num x \<Rightarrow> map_option (\<lambda>xs. x # xs) (nums_of cs)
      | _ \<Rightarrow> None)"

fun strs_of :: "cell list \<Rightarrow> string list option" where
  "strs_of [] = Some []"
| "strs_of (c # cs) =
     (case c of
        Str a \<Rightarrow> map_option (\<lambda>as. a # as) (strs_of cs)
      | _ \<Rightarrow> None)"

definition mean :: "real list \<Rightarrow> real" where
  "mean xs = sum_list xs / real (length xs)"

definition sq_dev :: "real list \<Rightarrow> real" where
  "sq_dev xs = sum_list (map (\<lambda>x. (x - mean xs) ^ 2) xs)"

definition median :: "real list \<Rightarrow> real" where
  "median xs =
     (let ys = sort xs; n = length xs
      in if odd n then ys ! (n div 2) else (ys ! (n div 2 - 1) + ys ! (n div 2)) / 2)"

definition num_agg :: "string \<Rightarrow> real list \<Rightarrow> cell" where
  "num_agg op xs =
     (if op = ''sum'' then Num (sum_list xs)
      else if xs = [] then Null
      else if op = ''mean'' then Num (mean xs)
      else if op = ''min'' then Num (fold min (tl xs) (hd xs))
      else if op = ''max'' then Num (fold max (tl xs) (hd xs))
      else if op = ''median'' then Num (median xs)
      else if length xs < 2 then Null
      else Num (sqrt (sq_dev xs / real (length xs - 1))))"

definition str_min :: "string \<Rightarrow> string \<Rightarrow> string" where
  "str_min a b = (if str_less b a then b else a)"

definition str_max :: "string \<Rightarrow> string \<Rightarrow> string" where
  "str_max a b = (if str_less a b then b else a)"

definition str_agg :: "string \<Rightarrow> string list \<Rightarrow> error + cell" where
  "str_agg op as =
     (if op = ''sum'' then Inr (Str (concat as))
      else if op = ''min'' then Inr (Str (fold str_min (tl as) (hd as)))
      else if op = ''max'' then Inr (Str (fold str_max (tl as) (hd as)))
      else Inl TypeError)"

definition agg_cells :: "string \<Rightarrow> cell list \<Rightarrow> error + cell" where
  "agg_cells op cs =
     (if op = ''count'' then Inr (Num (real (length (present cs))))
      else
        (case nums_of (present cs) of
           Some xs \<Rightarrow> Inr (num_agg op xs)
         | None \<Rightarrow>
             (case strs_of (present cs) of
                Some as \<Rightarrow> str_agg op as
              | None \<Rightarrow> Inl TypeError)))"

subsection \<open>Groups\<close>

text \<open>
  \<open>groupby(group_by, dropna=False)\<close>: the key of a row is its cells in the grouping
  columns, a missing cell is a key like any other, and the groups come in the order of
  their keys: numbers before texts, missing last.
\<close>

definition key_of :: "nat list \<Rightarrow> cell list \<Rightarrow> cell list" where
  "key_of idx r = map (\<lambda>i. cell_at i r) idx"

definition cell_less :: "cell \<Rightarrow> cell \<Rightarrow> bool" where
  "cell_less a b =
     (case a of
        Null \<Rightarrow> False
      | Num x \<Rightarrow> (case b of Num y \<Rightarrow> x < y | _ \<Rightarrow> True)
      | Str s \<Rightarrow> (case b of Num _ \<Rightarrow> False | Str t \<Rightarrow> str_less s t | Null \<Rightarrow> True))"

fun key_less :: "cell list \<Rightarrow> cell list \<Rightarrow> bool" where
  "key_less [] [] = False"
| "key_less [] (b # bs) = True"
| "key_less (a # as) [] = False"
| "key_less (a # as) (b # bs) = (cell_less a b \<or> (a = b \<and> key_less as bs))"

fun insert_key :: "cell list \<Rightarrow> cell list list \<Rightarrow> cell list list" where
  "insert_key k [] = [k]"
| "insert_key k (x # xs) = (if key_less x k then x # insert_key k xs else k # x # xs)"

definition sort_keys :: "cell list list \<Rightarrow> cell list list" where
  "sort_keys ks = foldr insert_key ks []"

definition col_indices :: "table \<Rightarrow> string list \<Rightarrow> nat list" where
  "col_indices t ks = map (\<lambda>k. index_of k (columns t)) ks"

definition group_keys :: "table \<Rightarrow> string list \<Rightarrow> cell list list" where
  "group_keys t gb = sort_keys (remdups (map (key_of (col_indices t gb)) (rows t)))"

definition group_rows :: "table \<Rightarrow> string list \<Rightarrow> cell list \<Rightarrow> cell list list" where
  "group_rows t gb k = filter (\<lambda>r. key_of (col_indices t gb) r = k) (rows t)"

definition has_columns :: "table \<Rightarrow> string list \<Rightarrow> bool" where
  "has_columns t ks = list_all (\<lambda>k. k \<in> set (columns t)) ks"

text \<open>\<open>groupby(group_by, dropna=False).size().reset_index(name='row_count')\<close>\<close>

definition group_size :: "table \<Rightarrow> string list \<Rightarrow> error + table" where
  "group_size t gb =
     (if has_columns t gb
      then Inr \<lparr>cols = map (\<lambda>g. (g, dtype_of t g)) gb @ [(''row_count'', DNumber)],
                rows = map (\<lambda>k. k @ [Num (real (length (group_rows t gb k)))])
                           (group_keys t gb)\<rparr>
      else Inl KeyError)"

definition agg_names :: "string list" where
  "agg_names = [''count'', ''sum'', ''mean'', ''min'', ''max'', ''median'', ''std'']"

definition agg_map :: "(string \<times> string) list \<Rightarrow> (string \<times> string) list" where
  "agg_map ops = filter (\<lambda>co. fst co \<noteq> ''*'' \<and> snd co \<in> set agg_names) ops"

definition wants_count :: "(string \<times> string) list \<Rightarrow> bool" where
  "wants_count ops = (map_of ops ''*'' = Some ''count'')"

definition agg_dtype :: "table \<Rightarrow> string \<times> string \<Rightarrow> dtype" where
  "agg_dtype t co =
     (if snd co \<in> set [''sum'', ''min'', ''max''] then dtype_of t (fst co) else DNumber)"

text \<open>The aggregates of the map on the given rows, one cell each.\<close>

definition agg_row :: "table \<Rightarrow> (string \<times> string) list \<Rightarrow> cell list list \<Rightarrow> error + cell list" where
  "agg_row t am rs =
     collect (map (\<lambda>co. agg_cells (snd co)
                          (map (cell_at (index_of (fst co) (columns t))) rs)) am)"

text \<open>
  \<open>groupby(group_by, dropna=False).agg(agg_map).reset_index()\<close>. An empty map has
  nothing to concatenate (\<open>ValueError\<close>); a column to aggregate must be a column that
  is not grouped by (\<open>KeyError\<close>). No column of the table is named \<open>row_count\<close>, the
  name that the size count adds.
\<close>

definition group_agg :: "table \<Rightarrow> string list \<Rightarrow> (string \<times> string) list \<Rightarrow> error + table" where
  "group_agg t gb am =
     (if \<not> has_columns t gb then Inl KeyError
      else if am = [] then Inl ValueError
      else if \<not> list_all (\<lambda>co. fst co \<in> set (columns t) \<and> fst co \<notin> set gb) am then Inl KeyError
      else
        (case collect (map (\<lambda>k. case agg_row t am (group_rows t gb k) of
                                   Inl e \<Rightarrow> Inl e
                                 | Inr a \<Rightarrow> Inr (k @ a))
                           (group_keys t gb)) of
           Inl e \<Rightarrow> Inl e
         | Inr rs \<Rightarrow>
             Inr \<lparr>cols = map (\<lambda>g. (g, dtype_of t g)) gb @ map (\<lambda>co. (fst co, agg_dtype t co)) am,
                  rows = rs\<rparr>))"

text \<open>
  \<open>counts.merge(out, on=group_by, how='left')\<close>, the key being the first \<open>n\<close> cells of a
  row: every row of \<open>counts\<close> is kept, joined with each row of \<open>out\<close> of the same key, or
  with missing cells when there is none. Missing keys match each other.
\<close>

definition merge_left :: "nat \<Rightarrow> table \<Rightarrow> table \<Rightarrow> table" where
  "merge_left n counts out =
     \<lparr>cols = cols counts @ drop n (cols out),
      rows = concat (map (\<lambda>l.
               (case filter (\<lambda>r. take n r = take n l) (rows out) of
                  [] \<Rightarrow> [l @ map (\<lambda>_. Null) (drop n (cols out))]
                | ms \<Rightarrow> map (\<lambda>r. l @ drop n r) ms)) (rows counts))\<rparr>"

definition or_empty :: "'a list option \<Rightarrow> 'a list" where
  "or_empty v = (case v of None \<Rightarrow> [] | Some xs \<Rightarrow> xs)"

definition aggregate ::
  "cell_text \<Rightarrow> table \<Rightarrow> string list option \<Rightarrow> (string \<times> string) list option
     \<Rightarrow> filterspec option \<Rightarrow> error + table" where
  "aggregate fmt df group_by ops filters =
     (case apply_filters fmt df filters of
        Inl e \<Rightarrow> Inl e
      | Inr data \<Rightarrow>
          if or_empty ops = [] then Inr data
          else if or_empty group_by \<noteq> [] then
            (case group_agg data (or_empty group_by) (agg_map (or_empty ops)) of
               Inl e \<Rightarrow> Inl e
             | Inr out \<Rightarrow>
                 if wants_count (or_empty ops) then
                   (case group_size data (or_empty group_by) of
                      Inl e \<Rightarrow> Inl e
                    | Inr counts \<Rightarrow> Inr (merge_left (length (or_empty group_by)) counts out))
                 else Inr out)
          else if agg_map (or_empty ops) = [] then Inl ValueError
          else if \<not> has_columns data (map fst (agg_map (or_empty ops))) then Inl KeyError
          else
            (case agg_row data (agg_map (or_empty ops)) (rows data) of
               Inl e \<Rightarrow> Inl e
             | Inr a \<Rightarrow>
                 if wants_count (or_empty ops)
                 then Inr \<lparr>cols = (''row_count'', DNumber)
                                   # map (\<lambda>co. (fst co, agg_dtype data co)) (agg_map (or_empty ops)),
                           rows = [Num (real (length (rows data))) # a]\<rparr>
                 else Inr \<lparr>cols = map (\<lambda>co. (fst co, agg_dtype data co)) (agg_map (or_empty ops)),
                           rows = [a]\<rparr>))"

definition row_count_frame :: "nat \<Rightarrow> table" where
  "row_count_frame n = \<lparr>cols = [(''row_count'', DNumber)], rows = [[Num (real n)]]\<rparr>"

definition group_count :: "table \<Rightarrow> string list \<Rightarrow> error + table" where
  "group_count df group_by =
     (if filter (\<lambda>g. g \<in> set (columns df)) group_by = []
      then Inr (row_count_frame (length (rows df)))
      else group_size df (filter (\<lambda>g. g \<in> set (columns df)) group_by))"

section \<open>The plan executor\<close>

text \<open>
  A result is a table, or \<open>External f\<close>: what the analysis function \<open>f\<close> returns, for
  the functions whose whole work is a pandas or scikit-learn computation that is not
  modelled (their exceptions included). The method note, the second component of the
  pair the source returns, is a fixed text per branch and is left out.
\<close>

datatype result = Frame table | External string

definition frame :: "error + table \<Rightarrow> error + result" where
  "frame r = (case r of Inl e \<Rightarrow> Inl e | Inr t \<Rightarrow> Inr (Frame t))"

subsection \<open>Z-score outliers\<close>

text \<open>
  \<open>zscore_outliers\<close> reads the column (\<open>KeyError\<close> when there is none) and converts it
  with \<open>astype(float)\<close>: a text is read by \<open>float\<close>, which may refuse it (\<open>ValueError\<close>).
  The mean, the standard deviation, the z-scores and their comparison with the
  threshold are then computed by numpy in binary64. That arithmetic is not modelled:
  which rows are returned depends on its rounding, so the result is \<open>External\<close>.
\<close>

definition astype_float :: "cell \<Rightarrow> error + pyfloat" where
  "astype_float c =
     (case c of
        Null \<Rightarrow> Inr FNaN
      | Num x \<Rightarrow> Inr (FFin x)
      | Str a \<Rightarrow> (case py_float a of Some f \<Rightarrow> Inr f | None \<Rightarrow> Inl ValueError))"

definition zscore_outliers :: "table \<Rightarrow> string \<Rightarrow> real \<Rightarrow> error + result" where
  "zscore_outliers df col threshold =
     (if col \<notin> set (columns df) then Inl KeyError
      else
        (case collect (map astype_float (series df col)) of
           Inl e \<Rightarrow> Inl e
         | Inr fs \<Rightarrow> Inr (External ''zscore_outliers'')))"

definition meta_shape :: "table \<Rightarrow> table" where
  "meta_shape df =
     \<lparr>cols = [(''rows'', DNumber), (''columns'', DNumber)],
      rows = [[Num (real (length (rows df))), Num (real (length (cols df)))]]\<rparr>"

definition meta_describe :: "table \<Rightarrow> result" where
  "meta_describe df =
     (if numeric_columns df = [] \<or> rows df = []
      then Frame \<lparr>cols = [(''note'', DOther)], rows = [[Str ''No numeric columns to describe.'']]\<rparr>
      else External ''describe'')"

text \<open>\<open>plan['col']\<close> and then \<open>df[col]\<close>: both raise \<open>KeyError\<close> when there is no such key.\<close>

definition on_column :: "table \<Rightarrow> string option \<Rightarrow> string \<Rightarrow> error + result" where
  "on_column df col f =
     (case col of
        None \<Rightarrow> Inl KeyError
      | Some c \<Rightarrow> if c \<in> set (columns df) then Inr (External f) else Inl KeyError)"

text \<open>The loop of the executor's own row count, for one entry of the filters.\<close>

definition count_step :: "table \<Rightarrow> string \<times> fval \<Rightarrow> error + table" where
  "count_step data kv =
     (if fst kv \<notin> set (columns data) then Inr data
      else
        (case snd kv of
           Value l \<Rightarrow> Inr (select (map (cell_eq l) (series data (fst kv))) data)
         | Preds p \<Rightarrow>
             (case f_between p of
                Some bounds \<Rightarrow>
                  (case between_mask (dtype_of data (fst kv)) (series data (fst kv)) bounds of
                     Inl e \<Rightarrow> Inl e
                   | Inr keep \<Rightarrow> Inr (select keep data))
              | None \<Rightarrow> Inr (select (map (\<lambda>_. False) (rows data)) data))))"

fun count_loop :: "table \<Rightarrow> filterspec \<Rightarrow> error + table" where
  "count_loop data [] = Inr data"
| "count_loop data (kv # rest) =
     (case count_step data kv of
        Inl e \<Rightarrow> Inl e
      | Inr data' \<Rightarrow> count_loop data' rest)"

definition execute_aggregate :: "cell_text \<Rightarrow> table \<Rightarrow> plan \<Rightarrow> error + result" where
  "execute_aggregate fmt df plan =
     (if or_empty (p_ops plan) = [(''*'', ''count'')] \<and> or_empty (p_group_by plan) \<noteq> []
      then frame (group_count df (or_empty (p_group_by plan)))
      else if or_empty (p_ops plan) = [(''*'', ''count'')]
      then (case count_loop df (or_empty (p_filters plan)) of
              Inl e \<Rightarrow> Inl e
            | Inr data \<Rightarrow> Inr (Frame (row_count_frame (length (rows data)))))
      else frame (aggregate fmt df (Some (or_empty (p_group_by plan)))
                    (Some (or_empty (p_ops plan))) (Some (or_empty (p_filters plan)))))"

definition execute_zscore :: "table \<Rightarrow> plan \<Rightarrow> error + result" where
  "execute_zscore df plan =
     (let thr = (case p_threshold plan of None \<Rightarrow> 3 | Some x \<Rightarrow> x)
      in if p_col plan = None \<or> the (p_col plan) \<notin> set (columns df)
         then (case numeric_columns df of
                 [] \<Rightarrow> Inl IndexError
               | c # _ \<Rightarrow> zscore_outliers df c thr)
         else zscore_outliers df (the (p_col plan)) thr)"

definition execute_plan :: "cell_text \<Rightarrow> table \<Rightarrow> plan \<Rightarrow> error + result" where
  "execute_plan fmt df plan =
     (let t = ptype plan in
      if t = ''meta:shape'' then Inr (Frame (meta_shape df))
      else if t = ''meta:columns'' then Inr (External ''meta_columns'')
      else if t = ''meta:dtypes'' then Inr (External ''meta_dtypes'')
      else if t = ''meta:describe'' then Inr (meta_describe df)
      else if t = ''meta:head''
        then Inr (Frame (head (case p_n plan of None \<Rightarrow> 5 | Some n \<Rightarrow> n) df))
      else if t = ''meta:tail''
        then Inr (Frame (tail (case p_n plan of None \<Rightarrow> 5 | Some n \<Rightarrow> n) df))
      else if t = ''meta:missing'' then Inr (External ''missing_summary'')
      else if t = ''meta:duplicates'' then Inr (External ''duplicates_count'')
      else if t = ''unique_count'' then on_column df (p_col plan) ''unique_count''
      else if t = ''value_counts'' then on_column df (p_col plan) ''value_counts''
      else if t = ''group_count'' then frame (group_count df (or_empty (p_group_by plan)))
      else if t = ''aggregate'' then execute_aggregate fmt df plan
      else if t = ''correlation'' then Inr (External ''correlations'')
      else if t = ''sort_top'' then Inr (External ''sort_top'')
      else if starts_with ''anomaly:zscore'' t then execute_zscore df plan
      else if t = ''anomaly:iforest'' then Inr (External ''iforest_outliers'')
      else Inr (Frame (head 10 df)))"

text \<open>
  One turn of the session loop: the plan for the question on the table's columns,
  executed. The loop has no handler around it, so an error here ends the session.
\<close>

definition answer :: "close_matches \<Rightarrow> cell_text \<Rightarrow> table \<Rightarrow> string \<Rightarrow> error + result" where
  "answer gcm fmt df q = execute_plan fmt df (plan_from_nl gcm (py_strip q) (columns df))"

section \<open>The planner on concrete questions\<close>

lemma plan_count_contains:
  "plan_from_nl gcm ''how many rows where name contains alp'' [''name'']
     = (plan_of_type ''aggregate'')
         \<lparr>p_group_by := Some [], p_ops := Some [(''*'', ''count'')],
          p_filters := Some [(''name'', Preds (no_preds\<lparr>f_contains := Some ''alp''\<rparr>))]\<rparr>"
  by code_simp

lemma plan_any_outliers:
  "plan_from_nl gcm ''outliers in name'' [''name'']
     = (plan_of_type ''anomaly:zscore'')\<lparr>p_col := Some ''name'', p_threshold := Some 3\<rparr>"
  by code_simp

text \<open>
  C1. The spec's example: for the question \<open>top 5 rows by volume\<close> on the columns \<open>volume\<close>
  and \<open>region\<close> the planner is to return the sort-top plan. The code does not: the
  question holds the word \<open>rows\<close>, so the row-count block, which comes first, takes it,
  finds the column after \<open>by\<close> and returns a group-count plan on \<open>volume\<close>. The source's
  own comment gives a question of this shape as the example for the sort-top block.
\<close>

theorem top_rows_question_is_group_count:
  "plan_from_nl gcm ''top 5 rows by volume'' [''volume'', ''region'']
     = (plan_of_type ''group_count'')\<lparr>p_group_by := Some [''volume'']\<rparr>"
  by code_simp

section \<open>The executor on concrete plans\<close>

text \<open>
  C2. Executing a plan is never to end the session. The code does: a z-score plan with
  no column, on a table without a number column, takes element 0 of an empty list of
  columns, an \<open>IndexError\<close>; and the plan the planner makes for \<open>outliers in name\<close> on a table
  with one text column names that column, whose conversion to float is a \<open>ValueError\<close>.
\<close>

theorem zscore_without_numeric_column_raises:
  "execute_plan fmt \<lparr>cols = [(''name'', DOther)], rows = [[Str ''Alpha'']]\<rparr>
      ((plan_of_type ''anomaly:zscore'')\<lparr>p_threshold := Some 3\<rparr>) = Inl IndexError
   \<and> answer gcm fmt \<lparr>cols = [(''name'', DOther)], rows = [[Str ''Alpha'']]\<rparr> ''outliers in name''
       = Inl ValueError"
proof -
  have a: "py_strip ''outliers in name'' = ''outliers in name''"
    by code_simp
  have b: "py_float ''Alpha'' = None"
    by code_simp
  have c: "starts_with ''anomaly:zscore'' ''anomaly:zscore''"
    by simp
  show ?thesis
    by (simp add: answer_def columns_def a plan_any_outliers execute_plan_def execute_zscore_def
        plan_of_type_def numeric_columns_def zscore_outliers_def series_def cell_at_def
        astype_float_def b frame_def)
qed

text \<open>
  C3. The string predicates are to compare without regard to case, all three of them.
  In the code only \<open>contains\<close> does: on the one cell \<open>Alpha\<close> the needle \<open>al\<close> is contained,
  but the row does not start with \<open>al\<close> nor end with \<open>HA\<close>.
\<close>

theorem startswith_endswith_are_case_sensitive:
  "apply_filters fmt \<lparr>cols = [(''name'', DOther)], rows = [[Str ''Alpha'']]\<rparr>
      (Some [(''name'', Preds (no_preds\<lparr>f_contains := Some ''al''\<rparr>))])
     = Inr \<lparr>cols = [(''name'', DOther)], rows = [[Str ''Alpha'']]\<rparr>
   \<and> apply_filters fmt \<lparr>cols = [(''name'', DOther)], rows = [[Str ''Alpha'']]\<rparr>
      (Some [(''name'', Preds (no_preds\<lparr>f_startswith := Some ''al''\<rparr>))])
     = Inr \<lparr>cols = [(''name'', DOther)], rows = []\<rparr>
   \<and> apply_filters fmt \<lparr>cols = [(''name'', DOther)], rows = [[Str ''Alpha'']]\<rparr>
      (Some [(''name'', Preds (no_preds\<lparr>f_endswith := Some ''HA''\<rparr>))])
     = Inr \<lparr>cols = [(''name'', DOther)], rows = []\<rparr>"
proof -
  have a: "py_lower ''al'' = ''al''" "py_lower ''Alpha'' = ''alpha''"
    by code_simp+
  show ?thesis
    by (simp add: apply_filters_def no_filters_def filter_step_def columns_def no_preds_def
        pred_masks_def opt_mask_def series_def cell_at_def select_def dtype_of_def
        str_contains_def str_startswith_def str_endswith_def astype_str_def a)
qed

text \<open>
  C4. The executor's own row count is to filter as \<open>apply_filters\<close> does, predicates
  such as \<open>contains\<close> included. The code does not: its loop knows \<open>between\<close> and equality
  only, so it compares the column with the dictionary itself and keeps no row. For the
  planner's plan for \<open>how many rows where name contains alp\<close> on the names \<open>alpha\<close> and
  \<open>beta\<close> it counts 0 rows where \<open>apply_filters\<close> keeps one.
\<close>

theorem direct_count_ignores_contains:
  "execute_plan fmt \<lparr>cols = [(''name'', DOther)], rows = [[Str ''alpha''], [Str ''beta'']]\<rparr>
      (plan_from_nl gcm ''how many rows where name contains alp'' [''name''])
     = Inr (Frame (row_count_frame 0))
   \<and> apply_filters fmt \<lparr>cols = [(''name'', DOther)], rows = [[Str ''alpha''], [Str ''beta'']]\<rparr>
      (p_filters (plan_from_nl gcm ''how many rows where name contains alp'' [''name'']))
     = Inr \<lparr>cols = [(''name'', DOther)], rows = [[Str ''alpha'']]\<rparr>"
proof -
  have a: "py_lower ''alp'' = ''alp''" "py_lower ''alpha'' = ''alpha''" "py_lower ''beta'' = ''beta''"
    by code_simp+
  have b: "str_in ''alp'' ''alpha''" "\<not> str_in ''alp'' ''beta''"
    by simp_all
  show ?thesis
    by (simp add: plan_count_contains execute_plan_def execute_aggregate_def plan_of_type_def
        or_empty_def count_step_def apply_filters_def no_filters_def filter_step_def columns_def
        no_preds_def pred_masks_def opt_mask_def series_def cell_at_def select_def dtype_of_def
        str_contains_def astype_str_def a b)
qed

section \<open>Properties of the filter engine\<close>

lemma select_cols: "cols (select keep t) = cols t"
  by (simp add: select_def)

lemma select_length: "length (rows (select keep t)) \<le> length (rows t)"
proof -
  have "length (filter fst (zip keep (rows t))) \<le> length (zip keep (rows t))"
    by (rule length_filter_le)
  then show ?thesis by (simp add: select_def)
qed

lemma filter_step_shape:
  assumes "filter_step fmt data kv = Inr data'"
  shows "cols data' = cols data \<and> length (rows data') \<le> length (rows data)"
  using assms select_length[of _ data]
  by (auto simp: filter_step_def select_cols split: if_splits fval.splits sum.splits)

lemma filter_loop_shape:
  "filter_loop fmt data F = Inr data' \<Longrightarrow>
     cols data' = cols data \<and> length (rows data') \<le> length (rows data)"
proof (induction F arbitrary: data)
  case Nil
  then show ?case by simp
next
  case (Cons kv F)
  then obtain d where d: "filter_step fmt data kv = Inr d" and l: "filter_loop fmt d F = Inr data'"
    by (auto split: sum.splits)
  from filter_step_shape[OF d] Cons.IH[OF l] show ?case by simp
qed

lemma filter_step_unknown: "fst kv \<notin> set (columns data) \<Longrightarrow> filter_step fmt data kv = Inr data"
  by (simp add: filter_step_def)

lemma filter_loop_known:
  "filter_loop fmt data F = filter_loop fmt data (filter (\<lambda>kv. fst kv \<in> set (columns data)) F)"
proof (induction F arbitrary: data)
  case Nil
  then show ?case by simp
next
  case (Cons kv F)
  show ?case
  proof (cases "fst kv \<in> set (columns data)")
    case False
    then show ?thesis using Cons.IH[of data] by (simp add: filter_step_unknown)
  next
    case True
    show ?thesis
    proof (cases "filter_step fmt data kv")
      case (Inl e)
      then show ?thesis using True by simp
    next
      case (Inr d)
      then have "columns d = columns data"
        using filter_step_shape[OF Inr] by (simp add: columns_def)
      then show ?thesis using True Inr Cons.IH[of d] by simp
    qed
  qed
qed

lemma filter_loop_all_unknown:
  "list_all (\<lambda>kv. fst kv \<notin> set (columns data)) F \<Longrightarrow> filter_loop fmt data F = Inr data"
  by (induction F) (simp_all add: filter_step_unknown)

text \<open>
  C6. \<open>apply_filters\<close> never raises for keys that are not columns of the table, and
  never returns more rows than the table has. An entry whose key is not a column is
  skipped: the result, error or table, is that for the entries on columns alone, and
  when no key is a column it is the table. Rows are only ever removed, and the columns
  stay.
\<close>

theorem apply_filters_unknown_keys_and_rows:
  "apply_filters fmt T (Some F)
     = apply_filters fmt T (Some (filter (\<lambda>kv. fst kv \<in> set (columns T)) F))
   \<and> (list_all (\<lambda>kv. fst kv \<notin> set (columns T)) F \<longrightarrow> apply_filters fmt T (Some F) = Inr T)
   \<and> (\<forall>T'. apply_filters fmt T Fo = Inr T'
         \<longrightarrow> length (rows T') \<le> length (rows T) \<and> cols T' = cols T)"
proof (intro conjI allI impI)
  show "apply_filters fmt T (Some F)
     = apply_filters fmt T (Some (filter (\<lambda>kv. fst kv \<in> set (columns T)) F))"
    using filter_loop_known[of fmt T F]
    by (cases "filter (\<lambda>kv. fst kv \<in> set (columns T)) F = []")
       (auto simp: apply_filters_def no_filters_def)
next
  assume "list_all (\<lambda>kv. fst kv \<notin> set (columns T)) F"
  then show "apply_filters fmt T (Some F) = Inr T"
    by (simp add: apply_filters_def no_filters_def filter_loop_all_unknown)
next
  fix T' assume a: "apply_filters fmt T Fo = Inr T'"
  show "length (rows T') \<le> length (rows T)"
    using a filter_loop_shape[of fmt T "the Fo" T']
    by (auto simp: apply_filters_def split: if_splits)
  show "cols T' = cols T"
    using a filter_loop_shape[of fmt T "the Fo" T']
    by (auto simp: apply_filters_def split: if_splits)
qed

theorem apply_filters_unknown_keys_and_rows_witness:
  "apply_filters (\<lambda>_. None) \<lparr>cols = [(''name'', DOther)], rows = [[Str ''alpha''], [Str ''beta'']]\<rparr>
      (Some [(''zzz'', Value (LInt 1)), (''name'', Value (LStr ''alpha''))])
     = Inr \<lparr>cols = [(''name'', DOther)], rows = [[Str ''alpha'']]\<rparr>
   \<and> apply_filters (\<lambda>_. None) \<lparr>cols = [(''name'', DOther)], rows = [[Str ''alpha''], [Str ''beta'']]\<rparr>
      (Some [(''zzz'', Value (LInt 1))])
     = Inr \<lparr>cols = [(''name'', DOther)], rows = [[Str ''alpha''], [Str ''beta'']]\<rparr>
   \<and> length (rows \<lparr>cols = [(''name'', DOther)], rows = [[Str ''alpha'']]\<rparr>)
       \<le> length (rows \<lparr>cols = [(''name'', DOther)], rows = [[Str ''alpha''], [Str ''beta'']]\<rparr>)"
proof -
  let ?T = "\<lparr>cols = [(''name'', DOther)], rows = [[Str ''alpha''], [Str ''beta'']]\<rparr>"
  let ?F = "[(''zzz'', Value (LInt 1)), (''name'', Value (LStr ''alpha''))]"
  have e: "apply_filters (\<lambda>_. None) ?T (Some [(''name'', Value (LStr ''alpha''))])
      = Inr \<lparr>cols = [(''name'', DOther)], rows = [[Str ''alpha'']]\<rparr>"
    by (simp add: apply_filters_def no_filters_def filter_step_def columns_def series_def
        cell_at_def select_def cell_eq_def)
  note t = apply_filters_unknown_keys_and_rows[of "\<lambda>_. None" ?T ?F "Some ?F"]
  note u = apply_filters_unknown_keys_and_rows[of "\<lambda>_. None" ?T "[(''zzz'', Value (LInt 1))]" None]
  have 1: "apply_filters (\<lambda>_. None) ?T (Some ?F) = Inr \<lparr>cols = [(''name'', DOther)], rows = [[Str ''alpha'']]\<rparr>"
    using t e by (simp add: columns_def)
  have 2: "apply_filters (\<lambda>_. None) ?T (Some [(''zzz'', Value (LInt 1))]) = Inr ?T"
    using u by (simp add: columns_def apply_filters_def no_filters_def)
  show ?thesis using 1 2 t by simp
qed

subsection \<open>The objects of the filter engine\<close>

lemma select_all: "select (map (\<lambda>_. True) (rows t)) t = t"
proof -
  have "map snd (filter fst (zip (map (\<lambda>_. True) rs) rs)) = rs" for rs :: "cell list list"
    by (induction rs) simp_all
  then show ?thesis by (simp add: select_def)
qed

lemma opt_mask_empty: "(opt_mask v f = []) = (v = None)"
  by (cases v) (simp_all add: opt_mask_def)

lemma pred_masks_empty:
  "(pred_masks fmt dt s p = []) = (pred_masks (\<lambda>_. None) DOther [] p = [])"
  by (simp add: pred_masks_def opt_mask_empty)

lemma filter_step_not_narrows:
  "\<not> narrows data kv \<Longrightarrow> filter_step fmt data kv = Inr data"
proof (cases "fst kv \<in> set (columns data)")
  case False
  then show ?thesis by (simp add: filter_step_def)
next
  case True
  assume n: "\<not> narrows data kv"
  then obtain p where p: "snd kv = Preds p" and e: "pred_masks (\<lambda>_. None) DOther [] p = []"
    using True by (auto simp: narrows_def split: fval.splits)
  have "pred_masks fmt (dtype_of data (fst kv)) (series data (fst kv)) p = []"
    using e pred_masks_empty by blast
  then show ?thesis using True p by (simp add: filter_step_def select_all)
qed

lemma filter_loop_obj_content:
  "d < length h \<Longrightarrow>
   (case filter_loop_obj fmt h d F of
      (Inl e, h') \<Rightarrow> filter_loop fmt (h ! d) F = Inl e
    | (Inr r, h') \<Rightarrow> r < length h' \<and> d \<le> r \<and> filter_loop fmt (h ! d) F = Inr (h' ! r)
                      \<and> take (length h) h' = h)"
proof (induction F arbitrary: h d)
  case Nil
  then show ?case by simp
next
  case (Cons kv F)
  show ?case
  proof (cases "filter_step fmt (h ! d) kv")
    case (Inl e)
    then show ?thesis by simp
  next
    case (Inr t)
    show ?thesis
    proof (cases "narrows (h ! d) kv")
      case True
      have l: "length h < length (h @ [t])" by simp
      have k: "take (length h) h' = h" if "take (Suc (length h)) h' = h @ [t]" for h'
      proof -
        have "take (length h) h' = take (length h) (take (Suc (length h)) h')" by simp
        also have "\<dots> = h" using that by simp
        finally show ?thesis .
      qed
      from Cons.IH[OF l] True Inr Cons.prems show ?thesis
        by (auto simp: new_table_def k split: prod.splits sum.splits)
    next
      case False
      then have "t = h ! d" using Inr filter_step_not_narrows[of "h ! d" kv fmt] by simp
      then show ?thesis using False Inr Cons.IH[OF Cons.prems]
        by (auto split: prod.splits sum.splits)
    qed
  qed
qed

text \<open>The content of the object that \<open>apply_filters_obj\<close> returns is what \<open>apply_filters\<close> computes.\<close>

lemma apply_filters_obj_content:
  assumes "df < length h"
  shows "(case apply_filters_obj fmt h df F of
            (Inl e, h') \<Rightarrow> apply_filters fmt (h ! df) F = Inl e
          | (Inr r, h') \<Rightarrow> r < length h' \<and> r \<noteq> df \<and> apply_filters fmt (h ! df) F = Inr (h' ! r)
                            \<and> take (length h) h' = h)"
proof (cases "no_filters F")
  case True
  then show ?thesis using assms
    by (simp add: apply_filters_obj_def apply_filters_def df_copy_def new_table_def)
next
  case False
  have l: "length h < length (h @ [h ! df])" by simp
  have k: "take (length h) h' = h" if "take (Suc (length h)) h' = h @ [h ! df]" for h'
  proof -
    have "take (length h) h' = take (length h) (take (Suc (length h)) h')" by simp
    also have "\<dots> = h" using that by simp
    finally show ?thesis .
  qed
  obtain res h' where r: "filter_loop_obj fmt (h @ [h ! df]) (length h) (the F) = (res, h')"
    by (cases "filter_loop_obj fmt (h @ [h ! df]) (length h) (the F)") auto
  have o: "apply_filters_obj fmt h df F = (res, h')"
    using False r by (simp add: apply_filters_obj_def df_copy_def new_table_def)
  have a: "apply_filters fmt (h ! df) F = filter_loop fmt (h ! df) (the F)"
    using False by (simp add: apply_filters_def)
  show ?thesis
  proof (cases res)
    case (Inl e)
    then show ?thesis using filter_loop_obj_content[OF l, of fmt "the F"] r o a
      by simp
  next
    case (Inr x)
    then have "x < length h' \<and> length h \<le> x \<and> filter_loop fmt (h ! df) (the F) = Inr (h' ! x)
        \<and> take (Suc (length h)) h' = h @ [h ! df]"
      using filter_loop_obj_content[OF l, of fmt "the F"] r by simp
    then show ?thesis using Inr o a assms k[of h'] by simp
  qed
qed

text \<open>
  C8. With an empty or absent filter specification \<open>apply_filters\<close> returns a copy: a
  new object, whose content is the table's. The table itself is left as it was, and
  stays so whatever is later stored in the returned object.
\<close>

theorem apply_filters_empty_is_fresh_copy:
  assumes "df < length h" and "no_filters F"
  shows "apply_filters_obj fmt h df F = (Inr (length h), h @ [h ! df])
         \<and> length h \<noteq> df
         \<and> (h @ [h ! df]) ! length h = h ! df
         \<and> (h @ [h ! df]) ! df = h ! df
         \<and> ((h @ [h ! df])[length h := t']) ! df = h ! df
         \<and> apply_filters fmt (h ! df) F = Inr (h ! df)"
  using assms
  by (simp add: apply_filters_obj_def df_copy_def new_table_def apply_filters_def nth_append)

theorem apply_filters_empty_is_fresh_copy_witness:
  "apply_filters_obj (\<lambda>_. None) [\<lparr>cols = [(''name'', DOther)], rows = [[Str ''alpha'']]\<rparr>] 0 (Some [])
     = (Inr 1, [\<lparr>cols = [(''name'', DOther)], rows = [[Str ''alpha'']]\<rparr>,
                \<lparr>cols = [(''name'', DOther)], rows = [[Str ''alpha'']]\<rparr>])
   \<and> apply_filters_obj (\<lambda>_. None) [\<lparr>cols = [(''name'', DOther)], rows = [[Str ''alpha'']]\<rparr>] 0 None
     = (Inr 1, [\<lparr>cols = [(''name'', DOther)], rows = [[Str ''alpha'']]\<rparr>,
                \<lparr>cols = [(''name'', DOther)], rows = [[Str ''alpha'']]\<rparr>])
   \<and> ([\<lparr>cols = [(''name'', DOther)], rows = [[Str ''alpha'']]\<rparr>,
        \<lparr>cols = [(''name'', DOther)], rows = [[Str ''alpha'']]\<rparr>][1 := \<lparr>cols = [], rows = []\<rparr>]) ! 0
       = \<lparr>cols = [(''name'', DOther)], rows = [[Str ''alpha'']]\<rparr>"
  using apply_filters_empty_is_fresh_copy[of 0 "[\<lparr>cols = [(''name'', DOther)], rows = [[Str ''alpha'']]\<rparr>]" "Some []" "\<lambda>_. None" "\<lparr>cols = [], rows = []\<rparr>"]
        apply_filters_empty_is_fresh_copy[of 0 "[\<lparr>cols = [(''name'', DOther)], rows = [[Str ''alpha'']]\<rparr>]" None "\<lambda>_. None" "\<lparr>cols = [], rows = []\<rparr>"]
  by (simp add: no_filters_def)

section \<open>Aggregate plans without operations\<close>

lemma aggregate_no_ops:
  "or_empty ops = [] \<Longrightarrow> aggregate fmt T gb ops F = apply_filters fmt T F"
  by (simp add: aggregate_def split: sum.splits)

lemma execute_empty_ops:
  assumes "ptype P = ''aggregate''" and "p_ops P = Some []"
  shows "execute_plan fmt T P = frame (apply_filters fmt T (Some (or_empty (p_filters P))))"
  using assms by (simp add: execute_plan_def execute_aggregate_def aggregate_no_ops or_empty_def)

lemma sum_plan:
  assumes "rules_before_sum gcm (py_lower (py_strip question)) names = None"
    and "any_in [''sum'', ''total''] (py_lower (py_strip question))"
    and "\<not> truthy (first_present gcm names
            [''scheduled_quantity'', ''shipments'', ''volume'', ''amount'', ''value''])"
  shows "ptype (plan_from_nl gcm question names) = ''aggregate''
       \<and> p_ops (plan_from_nl gcm question names) = Some []"
  using assms
  by (simp add: plan_from_nl_def rules_from_sum_def sum_rule_def ops_for_def plan_of_type_def Let_def)

lemma avg_plan:
  assumes "rules_before_sum gcm (py_lower (py_strip question)) names = None"
    and "\<not> any_in [''sum'', ''total''] (py_lower (py_strip question))"
    and "any_in [''average'', ''mean'', ''avg''] (py_lower (py_strip question))"
    and "\<not> truthy (or_str (resolve_col_from_text gcm (py_lower (py_strip question)) names)
            (first_present gcm names
            [''scheduled_quantity'', ''shipments'', ''volume'', ''delay_hours'', ''amount'', ''value'']))"
  shows "ptype (plan_from_nl gcm question names) = ''aggregate''
       \<and> p_ops (plan_from_nl gcm question names) = Some []"
  using assms
  by (simp add: plan_from_nl_def rules_from_sum_def sum_rule_def avg_rule_def ops_for_def plan_of_type_def Let_def)

text \<open>
  C9. With an empty or absent operation map \<open>aggregate\<close> returns what \<open>apply_filters\<close>
  returns, whatever the grouping: the filtered table, all rows and columns (or the
  filter engine's error), not a one-row aggregate. The planner makes such plans: a
  question that reaches the sum block, or the average block, and for which no target
  column is found, gets an aggregate plan with an empty operation map, and executing
  that plan gives the filtered table.
\<close>

theorem aggregate_without_ops_returns_filtered:
  "aggregate fmt T gb None F = apply_filters fmt T F
   \<and> aggregate fmt T gb (Some []) F = apply_filters fmt T F
   \<and> (rules_before_sum gcm (py_lower (py_strip question)) names = None
        \<and> any_in [''sum'', ''total''] (py_lower (py_strip question))
        \<and> \<not> truthy (first_present gcm names
               [''scheduled_quantity'', ''shipments'', ''volume'', ''amount'', ''value''])
      \<longrightarrow> ptype (plan_from_nl gcm question names) = ''aggregate''
          \<and> p_ops (plan_from_nl gcm question names) = Some []
          \<and> execute_plan fmt T (plan_from_nl gcm question names)
              = frame (apply_filters fmt T (Some (or_empty (p_filters (plan_from_nl gcm question names))))))
   \<and> (rules_before_sum gcm (py_lower (py_strip question)) names = None
        \<and> \<not> any_in [''sum'', ''total''] (py_lower (py_strip question))
        \<and> any_in [''average'', ''mean'', ''avg''] (py_lower (py_strip question))
        \<and> \<not> truthy (or_str (resolve_col_from_text gcm (py_lower (py_strip question)) names)
               (first_present gcm names
                  [''scheduled_quantity'', ''shipments'', ''volume'', ''delay_hours'',
                   ''amount'', ''value'']))
      \<longrightarrow> ptype (plan_from_nl gcm question names) = ''aggregate''
          \<and> p_ops (plan_from_nl gcm question names) = Some []
          \<and> execute_plan fmt T (plan_from_nl gcm question names)
              = frame (apply_filters fmt T (Some (or_empty (p_filters (plan_from_nl gcm question names))))))"
  using sum_plan[of gcm question names] avg_plan[of gcm question names]
        execute_empty_ops[of "plan_from_nl gcm question names" fmt T]
  by (simp add: aggregate_no_ops or_empty_def)

theorem aggregate_without_ops_returns_filtered_witness:
  "aggregate (\<lambda>_. None) \<lparr>cols = [(''region'', DOther)], rows = [[Str ''A''], [Null]]\<rparr>
       (Some [''region'']) None None
     = Inr \<lparr>cols = [(''region'', DOther)], rows = [[Str ''A''], [Null]]\<rparr>
   \<and> p_ops (plan_from_nl (\<lambda>_ _ _ _. []) ''total'' [''region'']) = Some []
   \<and> execute_plan (\<lambda>_. None) \<lparr>cols = [(''region'', DOther)], rows = [[Str ''A''], [Null]]\<rparr>
        (plan_from_nl (\<lambda>_ _ _ _. []) ''total'' [''region''])
     = Inr (Frame \<lparr>cols = [(''region'', DOther)], rows = [[Str ''A''], [Null]]\<rparr>)
   \<and> p_ops (plan_from_nl (\<lambda>_ _ _ _. []) ''the average'' [''region'']) = Some []"
proof -
  let ?g = "(\<lambda>_ _ _ _. []) :: close_matches"
  let ?T = "\<lparr>cols = [(''region'', DOther)], rows = [[Str ''A''], [Null]]\<rparr>"
  have s: "py_lower (py_strip ''total'') = ''total''" "py_lower (py_strip ''the average'') = ''the average''"
    by code_simp+
  have a: "rules_before_sum ?g ''total'' [''region''] = None"
    by code_simp
  have b: "any_in [''sum'', ''total''] ''total''"
    by code_simp
  have c: "\<not> truthy (first_present ?g [''region'']
            [''scheduled_quantity'', ''shipments'', ''volume'', ''amount'', ''value''])"
    by code_simp
  have f: "p_filters (plan_from_nl ?g ''total'' [''region'']) = Some []"
    by code_simp
  have a2: "rules_before_sum ?g ''the average'' [''region''] = None"
    by code_simp
  have b2: "\<not> any_in [''sum'', ''total''] ''the average''" "any_in [''average'', ''mean'', ''avg''] ''the average''"
    by code_simp+
  have c2: "\<not> truthy (or_str (resolve_col_from_text ?g ''the average'' [''region''])
            (first_present ?g [''region'']
            [''scheduled_quantity'', ''shipments'', ''volume'', ''delay_hours'', ''amount'', ''value'']))"
    by code_simp
  note t = aggregate_without_ops_returns_filtered[of "\<lambda>_. None" ?T "Some [''region'']" None ?g "''total''" "[''region'']"]
  note u = aggregate_without_ops_returns_filtered[of "\<lambda>_. None" ?T "Some [''region'']" None ?g "''the average''" "[''region'']"]
  have e: "apply_filters (\<lambda>_. None) ?T None = Inr ?T" "apply_filters (\<lambda>_. None) ?T (Some []) = Inr ?T"
    by (simp_all add: apply_filters_def no_filters_def)
  show ?thesis
    using t u by (simp add: s a b c f a2 b2 c2 e or_empty_def frame_def)
qed

section \<open>The literal of an equality filter\<close>

lemma select_filter:
  "select (map P (series T k)) T
     = T\<lparr>rows := filter (\<lambda>r. P (cell_at (index_of k (columns T)) r)) (rows T)\<rparr>"
proof -
  have "map snd (filter fst (zip (map f rs) rs)) = filter f rs" for f and rs :: "cell list list"
    by (induction rs) simp_all
  then show ?thesis by (simp add: select_def series_def comp_def)
qed

lemma cell_eq_str: "cell_eq (LStr u) c = (c = Str u)"
  by (cases c) (auto simp: cell_eq_def lit_float_def)

lemma equality_filter_str:
  "k \<in> set (columns T) \<Longrightarrow>
   apply_filters fmt T (Some [(k, Value (LStr u))])
     = Inr (T\<lparr>rows := filter (\<lambda>r. cell_at (index_of k (columns T)) r = Str u) (rows T)\<rparr>)"
  by (simp add: apply_filters_def no_filters_def filter_step_def select_filter cell_eq_str)

lemma coerce_cases:
  "(py_int s = Some i \<longrightarrow> coerce_literal s = LInt i)
   \<and> (py_int s = None \<and> py_float s = Some f \<longrightarrow> coerce_literal s = LFloat f)
   \<and> (py_int s = None \<and> py_float s = None \<and> length s \<le> 5
        \<longrightarrow> coerce_literal s = LStr (py_upper s))
   \<and> (py_int s = None \<and> py_float s = None \<and> 5 < length s \<longrightarrow> coerce_literal s = LStr s)"
  by (simp add: coerce_literal_def)

text \<open>
  C10. When the pattern \<open>where <column> = <value>\<close> matches the question and its column
  text resolves to a column, the planner stores under that column the coerced value:
  the integer when \<open>int\<close> reads the text, else the float when \<open>float\<close> reads it, else
  the text in upper case when it has at most 5 characters and the text itself when it
  is longer. Unless a \<open>where <column> contains <value>\<close> phrase is matched as well, this
  is the whole filter specification. An equality filter on a text keeps exactly the
  rows whose cell is that text, so for \<open>tx\<close> the rows that hold \<open>TX\<close>.
\<close>

theorem where_value_is_coerced:
  assumes "re_search re_where_eq q = Some (g1 # g2 # rest)"
    and "resolve_col_from_text gcm g1 names = Some col"
    and "col \<noteq> []"
  shows "filter_eq_step gcm q names [] = [(col, Value (coerce_literal (py_strip g2)))]
    \<and> (re_search re_where_contains q = None
         \<longrightarrow> extract_filters gcm q names = [(col, Value (coerce_literal (py_strip g2)))])
    \<and> (py_int s = Some i \<longrightarrow> coerce_literal s = LInt i)
    \<and> (py_int s = None \<and> py_float s = Some f \<longrightarrow> coerce_literal s = LFloat f)
    \<and> (py_int s = None \<and> py_float s = None \<and> length s \<le> 5
         \<longrightarrow> coerce_literal s = LStr (py_upper s))
    \<and> (py_int s = None \<and> py_float s = None \<and> 5 < length s \<longrightarrow> coerce_literal s = LStr s)
    \<and> (k \<in> set (columns T)
         \<longrightarrow> apply_filters fmt T (Some [(k, Value (LStr u))])
             = Inr (T\<lparr>rows := filter (\<lambda>r. cell_at (index_of k (columns T)) r = Str u) (rows T)\<rparr>))"
proof -
  have e: "filter_eq_step gcm q names [] = [(col, Value (coerce_literal (py_strip g2)))]"
    using assms by (simp add: filter_eq_step_def)
  then have "re_search re_where_contains q = None
         \<longrightarrow> extract_filters gcm q names = [(col, Value (coerce_literal (py_strip g2)))]"
    by (simp add: extract_filters_def filter_contains_step_def)
  then show ?thesis
    using e coerce_cases[of s i f] equality_filter_str[of k T fmt u] by blast
qed

theorem where_value_is_coerced_witness:
  "extract_filters (\<lambda>_ _ _ _. []) ''total volume where state_abb = tx'' [''state_abb'', ''volume'']
     = [(''state_abb'', Value (LStr ''TX''))]
   \<and> coerce_literal ''tx'' = LStr ''TX''
   \<and> coerce_literal ''2024'' = LInt 2024
   \<and> coerce_literal ''1e3'' = LFloat (FFin 1000)
   \<and> coerce_literal ''houston'' = LStr ''houston''
   \<and> apply_filters (\<lambda>_. None)
        \<lparr>cols = [(''state_abb'', DOther)], rows = [[Str ''tx''], [Str ''TX''], [Null]]\<rparr>
        (Some [(''state_abb'', Value (LStr ''TX''))])
     = Inr \<lparr>cols = [(''state_abb'', DOther)], rows = [[Str ''TX'']]\<rparr>"
proof -
  let ?g = "(\<lambda>_ _ _ _. []) :: close_matches"
  let ?q = "''total volume where state_abb = tx''"
  let ?T = "\<lparr>cols = [(''state_abb'', DOther)], rows = [[Str ''tx''], [Str ''TX''], [Null]]\<rparr>"
  have a: "re_search re_where_eq ?q = Some (''state_abb '' # ''tx'' # [])"
    by code_simp
  have b: "resolve_col_from_text ?g ''state_abb '' [''state_abb'', ''volume''] = Some ''state_abb''"
    by code_simp
  have c: "re_search re_where_contains ?q = None"
    by code_simp
  have d: "py_strip ''tx'' = ''tx''" "py_upper ''tx'' = ''TX''"
    by code_simp+
  have i1: "py_int ''tx'' = None" "py_float ''tx'' = None"
    by code_simp+
  have i2: "py_int ''2024'' = Some 2024"
    by code_simp
  have i3: "py_int ''1e3'' = None" "py_float ''1e3'' = Some (FFin 1000)"
    by code_simp+
  have i4: "py_int ''houston'' = None" "py_float ''houston'' = None"
    by code_simp+
  have k: "''state_abb'' \<in> set (columns ?T)"
    by (simp add: columns_def)
  note t1 = where_value_is_coerced[OF a b, of "''tx''" 0 FNaN "''state_abb''" ?T "\<lambda>_. None" "''TX''"]
  note t2 = where_value_is_coerced[OF a b, of "''2024''" 2024 FNaN "''state_abb''" ?T "\<lambda>_. None" "''TX''"]
  note t3 = where_value_is_coerced[OF a b, of "''1e3''" 0 "FFin 1000" "''state_abb''" ?T "\<lambda>_. None" "''TX''"]
  note t4 = where_value_is_coerced[OF a b, of "''houston''" 0 FNaN "''state_abb''" ?T "\<lambda>_. None" "''TX''"]
  have 1: "extract_filters ?g ?q [''state_abb'', ''volume''] = [(''state_abb'', Value (LStr ''TX''))]"
    and 2: "coerce_literal ''tx'' = LStr ''TX''"
    using t1 c d i1 by simp_all
  have 3: "coerce_literal ''2024'' = LInt 2024"
    using t2 i2 by simp
  have 4: "coerce_literal ''1e3'' = LFloat (FFin 1000)"
    using t3 i3 by simp
  have 5: "coerce_literal ''houston'' = LStr ''houston''"
    using t4 i4 by simp
  have 6: "apply_filters (\<lambda>_. None) ?T (Some [(''state_abb'', Value (LStr ''TX''))])
     = Inr \<lparr>cols = [(''state_abb'', DOther)], rows = [[Str ''TX'']]\<rparr>"
    using t1 k by (simp add: columns_def cell_at_def)
  from 1 2 3 4 5 6 show ?thesis by simp
qed

section \<open>Properties of the grouped aggregate\<close>

lemma collect_all2:
  "collect (map h xs) = Inr rs \<Longrightarrow> list_all2 (\<lambda>x r. h x = Inr r) xs rs"
proof (induction xs arbitrary: rs)
  case Nil
  then show ?case by simp
next
  case (Cons x xs)
  then obtain v vs where v: "h x = Inr v" and vs: "collect (map h xs) = Inr vs" and rs: "rs = v # vs"
    by (auto split: sum.splits)
  from Cons.IH[OF vs] v rs show ?case by simp
qed

lemma set_insert_key: "set (insert_key k xs) = insert k (set xs)"
  by (induction xs) auto

lemma distinct_insert_key: "distinct (insert_key k xs) = (k \<notin> set xs \<and> distinct xs)"
  by (induction xs) (auto simp: set_insert_key)

lemma set_sort_keys: "set (sort_keys ks) = set ks"
  by (induction ks) (simp_all add: sort_keys_def set_insert_key)

lemma distinct_sort_keys: "distinct (sort_keys ks) = distinct ks"
  by (induction ks) (simp_all add: sort_keys_def distinct_insert_key set_sort_keys[unfolded sort_keys_def])

lemma set_group_keys: "set (group_keys t gb) = key_of (col_indices t gb) ` set (rows t)"
  by (simp add: group_keys_def set_sort_keys)

lemma distinct_group_keys: "distinct (group_keys t gb)"
  by (simp add: group_keys_def distinct_sort_keys)

lemma length_group_key: "k \<in> set (group_keys t gb) \<Longrightarrow> length k = length gb"
  by (auto simp: set_group_keys key_of_def col_indices_def)

lemma filter_unique:
  "distinct (map f rs) \<Longrightarrow> i < length rs \<Longrightarrow> filter (\<lambda>r. f r = f (rs ! i)) rs = [rs ! i]"
proof (induction rs arbitrary: i)
  case Nil
  then show ?case by simp
next
  case (Cons x xs)
  show ?case
  proof (cases i)
    case 0
    have "filter (\<lambda>r. f r = f x) xs = []"
      using Cons.prems(1) by (auto simp: filter_empty_conv intro: rev_image_eqI)
    then show ?thesis using 0 by simp
  next
    case (Suc j)
    then have j: "j < length xs" using Cons.prems(2) by simp
    then have "f x \<noteq> f (xs ! j)" using Cons.prems(1) by (metis distinct.simps(2) image_eqI list.simps(9) nth_mem set_map)
    then show ?thesis using Suc Cons.IH[OF _ j] Cons.prems(1) by simp
  qed
qed

lemma concat_singletons:
  "(\<And>i. i < length ls \<Longrightarrow> g (ls ! i) = [h i]) \<Longrightarrow> concat (map g ls) = map h [0..<length ls]"
proof (induction ls arbitrary: h)
  case Nil
  then show ?case by simp
next
  case (Cons l ls)
  have a: "g l = [h 0]" using Cons.prems[of 0] by simp
  have b: "concat (map g ls) = map (\<lambda>i. h (Suc i)) [0..<length ls]"
    using Cons.prems[of "Suc _"] by (intro Cons.IH) simp
  show ?case using a b by (simp add: map_upt_Suc del: upt_Suc)
qed

lemma merge_left_rows:
  assumes "length (rows counts) = length (rows out)"
    and "distinct (map (take n) (rows out))"
    and "\<And>i. i < length (rows out) \<Longrightarrow> take n (rows counts ! i) = take n (rows out ! i)"
  shows "rows (merge_left n counts out)
    = map (\<lambda>i. rows counts ! i @ drop n (rows out ! i)) [0..<length (rows counts)]"
proof -
  have "(case filter (\<lambda>r. take n r = take n (rows counts ! i)) (rows out) of
           [] \<Rightarrow> [rows counts ! i @ map (\<lambda>_. Null) (drop n (cols out))]
         | ms \<Rightarrow> map (\<lambda>r. rows counts ! i @ drop n r) ms)
        = [rows counts ! i @ drop n (rows out ! i)]" if "i < length (rows counts)" for i
  proof -
    have i: "i < length (rows out)" using that assms(1) by simp
    have "filter (\<lambda>r. take n r = take n (rows counts ! i)) (rows out) = [rows out ! i]"
      using filter_unique[OF assms(2) i] assms(3)[OF i] by simp
    then show ?thesis by simp
  qed
  then show ?thesis
    unfolding merge_left_def by (simp add: concat_singletons)
qed

lemma group_agg_rows:
  assumes "group_agg t gb am = Inr out"
  shows "list_all2 (\<lambda>k r. take (length gb) r = k) (group_keys t gb) (rows out)"
proof -
  let ?h = "\<lambda>k. case agg_row t am (group_rows t gb k) of Inl e \<Rightarrow> Inl e | Inr a \<Rightarrow> Inr (k @ a)"
  obtain rs where c: "collect (map ?h (group_keys t gb)) = Inr rs" and r: "rows out = rs"
    using assms by (auto simp: group_agg_def split: if_splits sum.splits)
  have "list_all2 (\<lambda>k r. ?h k = Inr r) (group_keys t gb) rs"
    using collect_all2[OF c] .
  then have "list_all2 (\<lambda>k r. take (length gb) r = k) (group_keys t gb) rs"
  proof (rule list.rel_mono_strong)
    fix k r assume k: "k \<in> set (group_keys t gb)" and "r \<in> set rs" and h: "?h k = Inr r"
    from h obtain a where "r = k @ a" by (auto split: sum.splits)
    then show "take (length gb) r = k" using length_group_key[OF k] by simp
  qed
  then show ?thesis using r by simp
qed

text \<open>
  C5. When the operation map asks for the row count (\<open>*\<close> with \<open>count\<close>) and there are
  grouping columns, the result of \<open>aggregate\<close> has exactly one row for every group of
  the size count, in its order: the key cells and the count cell of the rows of the
  result are the rows of the size count. The groups are the distinct keys of the
  filtered rows, a key with missing cells being a key like any other; a group whose
  aggregate is missing (all its inputs missing) is there with a missing aggregate.
\<close>

theorem aggregate_count_keeps_every_group:
  assumes f: "apply_filters fmt df F = Inr data"
    and g: "gb \<noteq> []"
    and w: "wants_count ops"
    and a: "aggregate fmt df (Some gb) (Some ops) F = Inr out"
  shows "map (take (Suc (length gb))) (rows out)
           = map (\<lambda>k. k @ [Num (real (length (group_rows data gb k)))]) (group_keys data gb)
       \<and> map (take (length gb)) (rows out) = group_keys data gb
       \<and> set (group_keys data gb) = key_of (col_indices data gb) ` set (rows data)
       \<and> distinct (group_keys data gb)"
proof -
  let ?n = "length gb"
  let ?ks = "group_keys data gb"
  let ?cnt = "\<lambda>k. k @ [Num (real (length (group_rows data gb k)))]"
  have ne: "ops \<noteq> []" using w by (auto simp: wants_count_def)
  obtain o1 counts where o1: "group_agg data gb (agg_map ops) = Inr o1"
    and cs: "group_size data gb = Inr counts"
    and out: "out = merge_left ?n counts o1"
    using a f g w ne by (auto simp: aggregate_def or_empty_def split: sum.splits if_splits)
  have rc: "rows counts = map ?cnt ?ks"
    using cs by (auto simp: group_size_def split: if_splits)
  have l2: "list_all2 (\<lambda>k r. take ?n r = k) ?ks (rows o1)"
    using group_agg_rows[OF o1] .
  have len: "length (rows o1) = length ?ks"
    using l2 by (simp add: list_all2_lengthD)
  have tk: "take ?n (rows o1 ! i) = ?ks ! i" if "i < length ?ks" for i
    using l2 that by (simp add: list_all2_conv_all_nth)
  have mk: "map (take ?n) (rows o1) = ?ks"
    using len tk by (intro nth_equalityI) simp_all
  have kl: "length (?ks ! i) = ?n" if "i < length ?ks" for i
    using that length_group_key[of "?ks ! i" data gb] by simp
  have m: "rows out = map (\<lambda>i. rows counts ! i @ drop ?n (rows o1 ! i)) [0..<length (rows counts)]"
    unfolding out
  proof (rule merge_left_rows)
    show "length (rows counts) = length (rows o1)" using rc len by simp
    show "distinct (map (take ?n) (rows o1))" using mk distinct_group_keys by simp
    show "take ?n (rows counts ! i) = take ?n (rows o1 ! i)" if "i < length (rows o1)" for i
      using that len tk[of i] kl[of i] rc by simp
  qed
  have 1: "map (take (Suc ?n)) (rows out) = map ?cnt ?ks"
    unfolding m using rc kl by (intro nth_equalityI) simp_all
  have 2: "map (take ?n) (rows out) = ?ks"
    unfolding m using rc kl by (intro nth_equalityI) simp_all
  from 1 2 set_group_keys[of data gb] distinct_group_keys[of data gb] show ?thesis by blast
qed


theorem aggregate_count_keeps_every_group_witness:
  "aggregate (\<lambda>_. None)
      \<lparr>cols = [(''region'', DOther), (''v'', DNumber)],
       rows = [[Str ''A'', Num 1], [Str ''A'', Null], [Null, Null], [Str ''B'', Num 3]]\<rparr>
      (Some [''region'']) (Some [(''*'', ''count''), (''v'', ''mean'')]) None
     = Inr \<lparr>cols = [(''region'', DOther), (''row_count'', DNumber), (''v'', DNumber)],
            rows = [[Str ''A'', Num 2, Num 1], [Str ''B'', Num 1, Num 3], [Null, Num 1, Null]]\<rparr>
   \<and> group_keys \<lparr>cols = [(''region'', DOther), (''v'', DNumber)],
       rows = [[Str ''A'', Num 1], [Str ''A'', Null], [Null, Null], [Str ''B'', Num 3]]\<rparr> [''region'']
     = [[Str ''A''], [Str ''B''], [Null]]"
proof -
  let ?T = "\<lparr>cols = [(''region'', DOther), (''v'', DNumber)],
       rows = [[Str ''A'', Num 1], [Str ''A'', Null], [Null, Null], [Str ''B'', Num 3]]\<rparr>"
  let ?O = "\<lparr>cols = [(''region'', DOther), (''row_count'', DNumber), (''v'', DNumber)],
            rows = [[Str ''A'', Num 2, Num 1], [Str ''B'', Num 1, Num 3], [Null, Num 1, Null]]\<rparr>"
  have f: "apply_filters (\<lambda>_. None) ?T None = Inr ?T"
    by (simp add: apply_filters_def no_filters_def)
  have sl: "ord CHR ''A'' = 65" "ord CHR ''B'' = 66"
    by (simp_all add: ord_def)
  have k: "group_keys ?T [''region''] = [[Str ''A''], [Str ''B''], [Null]]"
    by (simp add: group_keys_def col_indices_def columns_def key_of_def cell_at_def sort_keys_def
        cell_less_def sl)
  have gr: "group_rows ?T [''region''] [Str ''A''] = [[Str ''A'', Num 1], [Str ''A'', Null]]"
    "group_rows ?T [''region''] [Str ''B''] = [[Str ''B'', Num 3]]"
    "group_rows ?T [''region''] [Null] = [[Null, Null]]"
    by (simp_all add: group_rows_def col_indices_def columns_def key_of_def cell_at_def)
  have ag: "agg_map [(''*'', ''count''), (''v'', ''mean'')] = [(''v'', ''mean'')]"
    by (simp add: agg_map_def agg_names_def)
  have ar: "agg_row ?T [(''v'', ''mean'')] [[Str ''A'', Num 1], [Str ''A'', Null]] = Inr [Num 1]"
    "agg_row ?T [(''v'', ''mean'')] [[Str ''B'', Num 3]] = Inr [Num 3]"
    "agg_row ?T [(''v'', ''mean'')] [[Null, Null]] = Inr [Null]"
    by (simp_all add: agg_row_def columns_def cell_at_def agg_cells_def present_def num_agg_def mean_def)
  have ga: "group_agg ?T [''region''] [(''v'', ''mean'')]
      = Inr \<lparr>cols = [(''region'', DOther), (''v'', DNumber)],
              rows = [[Str ''A'', Num 1], [Str ''B'', Num 3], [Null, Null]]\<rparr>"
    by (simp add: group_agg_def has_columns_def columns_def k gr ar dtype_of_def agg_dtype_def)
  have gs: "group_size ?T [''region'']
      = Inr \<lparr>cols = [(''region'', DOther), (''row_count'', DNumber)],
              rows = [[Str ''A'', Num 2], [Str ''B'', Num 1], [Null, Num 1]]\<rparr>"
    by (simp add: group_size_def has_columns_def columns_def k gr dtype_of_def)
  have a: "aggregate (\<lambda>_. None) ?T (Some [''region'']) (Some [(''*'', ''count''), (''v'', ''mean'')]) None
      = Inr ?O"
    by (simp add: aggregate_def f or_empty_def ag ga gs wants_count_def merge_left_def)
  have w: "wants_count [(''*'', ''count''), (''v'', ''mean'')]"
    by (simp add: wants_count_def)
  have g: "[''region''] \<noteq> []"
    by simp
  note t = aggregate_count_keeps_every_group[OF f g w a]
  have "group_keys ?T [''region''] = [[Str ''A''], [Str ''B''], [Null]]"
    using t by simp
  then show ?thesis using a by simp
qed

end
